theory Spec2Isabelle
  imports Complex_Main "HOL-Library.Log_Nat"
begin

section \<open>Numbers\<close>

text \<open>
  The calculator works on JavaScript Numbers, the values of IEEE 754 binary64, and every
  \<open>+\<close>, \<open>-\<close>, \<open>*\<close> and \<open>/\<close> of the source rounds its exact result to the nearest
  such value, ties to the even significand. A finite Number is a rational with a
  significand of 53 bits; \<open>rnd\<close> is the rounding of an exact rational to the nearest
  one. The exponent is not bounded here: overflow to \<open>Infinity\<close> (beyond about 1.8e308)
  and the subnormal range (below about 2.2e-308) are outside the model, and \<open>-0\<close> is not
  told from \<open>0\<close>. \<open>NaN\<close> and the infinities appear where the source can produce them from
  finite Numbers: \<open>NaN\<close> as the result \<open>None\<close> of \<open>parseFloat\<close>, and all three as
  quotients by zero.
\<close>

text \<open>Rounding to the nearest integer, ties to even.\<close>

definition round_even :: "rat \<Rightarrow> int" where
  "round_even x =
     (let n = \<lfloor>x\<rfloor>; r = x - of_int n
      in if r < 1 / 2 then n else if 1 / 2 < r then n + 1 else if even n then n else n + 1)"

text \<open>The binary exponent of a positive rational: \<open>2 powi e \<le> x < 2 powi (e + 1)\<close>.\<close>

definition exponent :: "rat \<Rightarrow> int" where
  "exponent x =
     (let (p, q) = quotient_of x; k = bitlen p - bitlen q
      in if 2 powi k \<le> x then k else k - 1)"

text \<open>Rounding to 53 significant bits: the unit in the last place is \<open>2 powi (e - 52)\<close>.\<close>

definition rnd :: "rat \<Rightarrow> rat" where
  "rnd x =
     (if x = 0 then 0
      else let ulp = 2 powi (exponent \<bar>x\<bar> - 52)
           in sgn x * of_int (round_even (\<bar>x\<bar> / ulp)) * ulp)"


subsection \<open>The type of Numbers\<close>

text \<open>
  A \<open>double\<close> is a rational that the rounding leaves as it is. \<open>rat_of\<close> is its exact
  value, and \<open>dbl x\<close> is the Number nearest to the rational \<open>x\<close>: what a decimal literal
  of the source, or a decimal numeral read by \<open>parseFloat\<close>, denotes.
\<close>

typedef double = "{x :: rat. rnd x = x}"
  morphisms rat_of Abs_double
  by (rule exI [of _ 0]) (simp add: rnd_def)

definition dbl :: "rat \<Rightarrow> double" where
  "dbl x = Abs_double (rnd x)"

text \<open>The four operations of the source: the exact result, rounded.\<close>

definition fadd :: "double \<Rightarrow> double \<Rightarrow> double" where
  "fadd a b = dbl (rat_of a + rat_of b)"

definition fsub :: "double \<Rightarrow> double \<Rightarrow> double" where
  "fsub a b = dbl (rat_of a - rat_of b)"

definition fmul :: "double \<Rightarrow> double \<Rightarrow> double" where
  "fmul a b = dbl (rat_of a * rat_of b)"

text \<open>The quotient by a divisor that is not zero.\<close>

definition fdiv :: "double \<Rightarrow> double \<Rightarrow> double" where
  "fdiv a b = dbl (rat_of a / rat_of b)"

text \<open>The absolute value: that of the exact value, which needs no rounding.\<close>

definition fabs :: "double \<Rightarrow> double" where
  "fabs a = dbl \<bar>rat_of a\<bar>"

text \<open>The comparisons of the source are those of the exact values.\<close>

instantiation double :: linorder
begin

definition less_eq_double :: "double \<Rightarrow> double \<Rightarrow> bool" where
  "less_eq_double a b \<longleftrightarrow> rat_of a \<le> rat_of b"

definition less_double :: "double \<Rightarrow> double \<Rightarrow> bool" where
  "less_double a b \<longleftrightarrow> rat_of a < rat_of b"

instance
  by standard (auto simp add: less_eq_double_def less_double_def rat_of_inject)

end

text \<open>
  \<open>/\<close> of JavaScript raises nothing on a zero divisor: it yields \<open>Infinity\<close>,
  \<open>-Infinity\<close> or \<open>NaN\<close>, by the sign of the dividend.
\<close>

datatype quotient = Finite double | PosInfinity | NegInfinity | NotANumber

definition js_div :: "double \<Rightarrow> double \<Rightarrow> quotient" where
  "js_div a b =
     (if b = dbl 0
      then (if dbl 0 < a then PosInfinity else if a < dbl 0 then NegInfinity else NotANumber)
      else Finite (fdiv a b))"

section \<open>The calculation of \<open>calculateROI\<close>\<close>

text \<open>
  The five constants that \<open>calculateROI\<close> parses from the form (script.js, lines
  97 to 101; the other file, lines 89 to 93), under the names the source gives them.
\<close>

record inputs =
  monthlyVolume :: double
  creditCardPercentage :: double
  competitorRate :: double
  competitorSaas :: double
  diCost :: double

text \<open>The only failure of the calculation: the check \<open>monthlyVolume <= 0\<close>.\<close>

datatype error = InvalidVolume

text \<open>The object literal that \<open>calculateROI\<close> hands to \<open>updateResults\<close>, key by key.\<close>

record data =
  data_competitorSaas :: double
  data_competitorProcessing :: double
  data_competitorTotal :: double
  data_diSaas :: double
  data_diProcessing :: double
  data_diTotal :: double
  data_monthlySavings :: double
  data_annualSavings :: double

subsection \<open>Lines shared by both files\<close>

text \<open>
  Both files compute the credit card volume, the debit volume and the competitor's
  costs with the same statements. The divisions by the literal \<open>100\<close> are written with
  \<open>fdiv\<close>.
\<close>

definition creditCardVolume :: "inputs \<Rightarrow> double" where
  "creditCardVolume i = fmul (monthlyVolume i) (fdiv (creditCardPercentage i) (dbl 100))"

definition debitVolume :: "inputs \<Rightarrow> double" where
  "debitVolume i = fsub (monthlyVolume i) (creditCardVolume i)"

definition competitorRateDecimal :: "inputs \<Rightarrow> double" where
  "competitorRateDecimal i = fdiv (competitorRate i) (dbl 100)"

definition competitorProcessingCost :: "inputs \<Rightarrow> double" where
  "competitorProcessingCost i = fmul (monthlyVolume i) (competitorRateDecimal i)"

definition competitorTotalCost :: "inputs \<Rightarrow> double" where
  "competitorTotalCost i = fadd (competitorSaas i) (competitorProcessingCost i)"

subsection \<open>script.js: the surcharge formula\<close>

definition baseProcessingRate :: double where
  "baseProcessingRate = dbl 0.02913"

definition surchargeCollected :: "inputs \<Rightarrow> double" where
  "surchargeCollected i = fmul (creditCardVolume i) (dbl 0.03)"

definition feesWithSurcharging :: "inputs \<Rightarrow> double" where
  "feesWithSurcharging i =
     fsub (fmul (fadd (monthlyVolume i) (surchargeCollected i)) baseProcessingRate)
          (fmul (fadd (creditCardVolume i) (surchargeCollected i)) baseProcessingRate)"

definition adjustedVolume :: "inputs \<Rightarrow> double" where
  "adjustedVolume i = fadd (monthlyVolume i) (surchargeCollected i)"

text \<open>The effective rate is computed, by an unguarded division, and then used nowhere.\<close>

definition effectiveRate :: "inputs \<Rightarrow> quotient" where
  "effectiveRate i = js_div (feesWithSurcharging i) (adjustedVolume i)"

definition diProcessingCost :: "inputs \<Rightarrow> double" where
  "diProcessingCost i = feesWithSurcharging i"

definition diTotalCost :: "inputs \<Rightarrow> double" where
  "diTotalCost i = fadd (diCost i) (diProcessingCost i)"

definition monthlySavings :: "inputs \<Rightarrow> double" where
  "monthlySavings i = fsub (competitorTotalCost i) (diTotalCost i)"

definition annualSavings :: "inputs \<Rightarrow> double" where
  "annualSavings i = fmul (monthlySavings i) (dbl 12)"

text \<open>
  The part of \<open>calculateROI\<close> between the parsing of the form and the writing of the
  page: the validation, then the object for \<open>updateResults\<close>.
\<close>

definition calculateROI_core :: "inputs \<Rightarrow> error + data" where
  "calculateROI_core i =
     (if monthlyVolume i \<le> dbl 0 then Inl InvalidVolume
      else Inr \<lparr>data_competitorSaas = competitorSaas i,
                data_competitorProcessing = competitorProcessingCost i,
                data_competitorTotal = competitorTotalCost i,
                data_diSaas = diCost i,
                data_diProcessing = diProcessingCost i,
                data_diTotal = diTotalCost i,
                data_monthlySavings = monthlySavings i,
                data_annualSavings = annualSavings i\<rparr>)"

subsection \<open>The other file: the flat rate\<close>

definition DI_SURCHARGE_RATE :: double where
  "DI_SURCHARGE_RATE = dbl 1.39"

definition DI_SURCHARGE_RATE_DECIMAL :: double where
  "DI_SURCHARGE_RATE_DECIMAL = fdiv DI_SURCHARGE_RATE (dbl 100)"

definition diProcessingCost_flat :: "inputs \<Rightarrow> double" where
  "diProcessingCost_flat i = fmul (monthlyVolume i) DI_SURCHARGE_RATE_DECIMAL"

definition diTotalCost_flat :: "inputs \<Rightarrow> double" where
  "diTotalCost_flat i = fadd (diCost i) (diProcessingCost_flat i)"

definition monthlySavings_flat :: "inputs \<Rightarrow> double" where
  "monthlySavings_flat i = fsub (competitorTotalCost i) (diTotalCost_flat i)"

definition annualSavings_flat :: "inputs \<Rightarrow> double" where
  "annualSavings_flat i = fmul (monthlySavings_flat i) (dbl 12)"

definition calculateROI_core_flat :: "inputs \<Rightarrow> error + data" where
  "calculateROI_core_flat i =
     (if monthlyVolume i \<le> dbl 0 then Inl InvalidVolume
      else Inr \<lparr>data_competitorSaas = competitorSaas i,
                data_competitorProcessing = competitorProcessingCost i,
                data_competitorTotal = competitorTotalCost i,
                data_diSaas = diCost i,
                data_diProcessing = diProcessingCost_flat i,
                data_diTotal = diTotalCost_flat i,
                data_monthlySavings = monthlySavings_flat i,
                data_annualSavings = annualSavings_flat i\<rparr>)"

section \<open>The page\<close>

subsection \<open>Field texts\<close>

text \<open>
  The text of an input field, or of its placeholder, is represented by what the two
  files can read from it:
  \<^item> \<open>Empty\<close> is the empty string;
  \<^item> \<open>Num d\<close> is a plain decimal numeral, with a leading minus sign when it is negative
    and no other character (no comma, no exponent), that denotes the Number \<open>d\<close>;
  \<^item> \<open>Other\<close> is a text in which \<open>parseFloat\<close> finds no number, before and after
    the replacements of the source (\<open>NaN\<close>, for one).
  Texts of other shapes (a numeral with commas or with a currency sign) are outside the
  model.
\<close>

datatype field_text = Empty | Num double | Other

text \<open>\<open>parseFloat\<close>: \<open>None\<close> is \<open>NaN\<close>.\<close>

fun parseFloat :: "field_text \<Rightarrow> double option" where
  "parseFloat Empty = None"
| "parseFloat (Num d) = Some d"
| "parseFloat Other = None"

text \<open>\<open>a || b\<close> on strings: the empty string is the only falsy one.\<close>

fun or_text :: "field_text \<Rightarrow> field_text \<Rightarrow> field_text" where
  "or_text Empty b = b"
| "or_text a b = a"

text \<open>\<open>x || 0\<close> on numbers: \<open>NaN\<close> and \<open>0\<close> are the falsy ones.\<close>

fun or_zero :: "double option \<Rightarrow> double" where
  "or_zero None = dbl 0"
| "or_zero (Some d) = d"

text \<open>\<open>.replace(/,/g, '')\<close>: none of the three kinds of text holds a comma.\<close>

definition strip_commas :: "field_text \<Rightarrow> field_text" where
  "strip_commas t = t"

text \<open>
  \<open>.replace(/[^0-9.]/g, '')\<close> keeps digits and dots only, so it removes the minus
  sign of a numeral.
\<close>

fun strip_non_numeric :: "field_text \<Rightarrow> field_text" where
  "strip_non_numeric Empty = Empty"
| "strip_non_numeric (Num d) = Num (fabs d)"
| "strip_non_numeric Other = Other"

text \<open>The string that \<open>input.value = value\<close> stores for a number; \<open>NaN\<close> gives \<open>NaN\<close>.\<close>

fun to_text :: "double option \<Rightarrow> field_text" where
  "to_text None = Other"
| "to_text (Some d) = Num d"

text \<open>\<open><\<close> and \<open>>\<close> of JavaScript: a comparison with \<open>NaN\<close> is false.\<close>

fun js_lt :: "double option \<Rightarrow> double \<Rightarrow> bool" where
  "js_lt None b = False"
| "js_lt (Some a) b = (a < b)"

fun js_gt :: "double option \<Rightarrow> double \<Rightarrow> bool" where
  "js_gt None b = False"
| "js_gt (Some a) b = (a > b)"

subsection \<open>The state of the page\<close>

text \<open>
  The five input fields with their placeholders, the eight result elements, the results
  section and the alerts shown so far. A result element is represented by the Number that
  \<open>formatCurrency\<close> rendered into its \<open>textContent\<close>; the rendering itself, the count-up
  of \<open>animateValue\<close>, which ends on the same Number, and the delayed scroll are not
  modelled.
\<close>

record page =
  monthlyVolume_value :: field_text
  monthlyVolume_placeholder :: field_text
  creditCardPercentage_value :: field_text
  creditCardPercentage_placeholder :: field_text
  competitorRate_value :: field_text
  competitorRate_placeholder :: field_text
  competitorSaas_value :: field_text
  competitorSaas_placeholder :: field_text
  diCost_value :: field_text
  diCost_placeholder :: field_text
  compSaas_text :: double
  compProcessing_text :: double
  compTotal_text :: double
  diSaas_text :: double
  diProcessing_text :: double
  diTotal_text :: double
  monthlySavings_text :: double
  annualSavings_text :: double
  resultsSection_display :: string
  alerts :: "string list"

definition alert :: "string \<Rightarrow> page \<Rightarrow> page" where
  "alert msg p = p\<lparr>alerts := alerts p @ [msg]\<rparr>"

definition updateResults :: "data \<Rightarrow> page \<Rightarrow> page" where
  "updateResults d p =
     p\<lparr>compSaas_text := data_competitorSaas d,
       compProcessing_text := data_competitorProcessing d,
       compTotal_text := data_competitorTotal d,
       diSaas_text := data_diSaas d,
       diProcessing_text := data_diProcessing d,
       diTotal_text := data_diTotal d,
       monthlySavings_text := data_monthlySavings d,
       annualSavings_text := data_annualSavings d\<rparr>"

subsection \<open>\<open>calculateROI\<close> of script.js\<close>

text \<open>Lines 97 to 101: commas are stripped; the competitor's fee keeps digits and dots.\<close>

definition readInputs :: "page \<Rightarrow> inputs" where
  "readInputs p =
     \<lparr>monthlyVolume =
        or_zero (parseFloat (strip_commas
          (or_text (monthlyVolume_value p) (monthlyVolume_placeholder p)))),
      creditCardPercentage =
        or_zero (parseFloat (strip_commas
          (or_text (creditCardPercentage_value p) (creditCardPercentage_placeholder p)))),
      competitorRate =
        or_zero (parseFloat (strip_commas
          (or_text (competitorRate_value p) (competitorRate_placeholder p)))),
      competitorSaas =
        or_zero (parseFloat (strip_non_numeric
          (or_text (competitorSaas_value p) (competitorSaas_placeholder p)))),
      diCost =
        or_zero (parseFloat (strip_commas
          (or_text (diCost_value p) (diCost_placeholder p))))\<rparr>"

definition calculateROI :: "page \<Rightarrow> page" where
  "calculateROI p =
     (case calculateROI_core (readInputs p) of
        Inl InvalidVolume \<Rightarrow> alert ''Please enter a valid monthly processing volume'' p
      | Inr d \<Rightarrow> (updateResults d p)\<lparr>resultsSection_display := ''grid''\<rparr>)"

subsection \<open>\<open>calculateROI\<close> of the other file\<close>

text \<open>
  Lines 89 to 93: nothing is stripped, but for the placeholder of the competitor's
  fee.
\<close>

definition readInputs_flat :: "page \<Rightarrow> inputs" where
  "readInputs_flat p =
     \<lparr>monthlyVolume =
        or_zero (parseFloat (or_text (monthlyVolume_value p) (monthlyVolume_placeholder p))),
      creditCardPercentage =
        or_zero (parseFloat
          (or_text (creditCardPercentage_value p) (creditCardPercentage_placeholder p))),
      competitorRate =
        or_zero (parseFloat (or_text (competitorRate_value p) (competitorRate_placeholder p))),
      competitorSaas =
        or_zero (parseFloat
          (or_text (competitorSaas_value p) (strip_non_numeric (competitorSaas_placeholder p)))),
      diCost =
        or_zero (parseFloat (or_text (diCost_value p) (diCost_placeholder p)))\<rparr>"

definition calculateROI_flat :: "page \<Rightarrow> page" where
  "calculateROI_flat p =
     (case calculateROI_core_flat (readInputs_flat p) of
        Inl InvalidVolume \<Rightarrow> alert ''Please enter a valid monthly processing volume'' p
      | Inr d \<Rightarrow> (updateResults d p)\<lparr>resultsSection_display := ''grid''\<rparr>)"

subsection \<open>Event handlers\<close>

text \<open>
  The blur handler of the two percentage fields (the same text in both files), as the
  new \<open>input.value\<close> for the old one.
\<close>

definition percentageBlur :: "field_text \<Rightarrow> field_text" where
  "percentageBlur t =
     (let v = parseFloat t;
          v = (if js_lt v (dbl 0) then Some (dbl 0) else v);
          v = (if js_gt v (dbl 100) then Some (dbl 100) else v)
      in to_text v)"

datatype percentageInput = CreditCardPercentage | CompetitorRate

datatype inputId = MonthlyVolume | Percentage percentageInput | CompetitorSaas | DiCost

fun set_value :: "inputId \<Rightarrow> field_text \<Rightarrow> page \<Rightarrow> page" where
  "set_value MonthlyVolume t p = p\<lparr>monthlyVolume_value := t\<rparr>"
| "set_value (Percentage CreditCardPercentage) t p = p\<lparr>creditCardPercentage_value := t\<rparr>"
| "set_value (Percentage CompetitorRate) t p = p\<lparr>competitorRate_value := t\<rparr>"
| "set_value CompetitorSaas t p = p\<lparr>competitorSaas_value := t\<rparr>"
| "set_value DiCost t p = p\<lparr>diCost_value := t\<rparr>"

fun get_value :: "inputId \<Rightarrow> page \<Rightarrow> field_text" where
  "get_value MonthlyVolume p = monthlyVolume_value p"
| "get_value (Percentage CreditCardPercentage) p = creditCardPercentage_value p"
| "get_value (Percentage CompetitorRate) p = competitorRate_value p"
| "get_value CompetitorSaas p = competitorSaas_value p"
| "get_value DiCost p = diCost_value p"

text \<open>
  What happens to the page:
  \<^item> \<open>Edit\<close>: the text of a field changes, because the user types or because
    \<open>prefillFromURLParams\<close> assigns a query parameter to a percentage field; the
    \<open>input\<close> listener, \<open>debounceCalculate\<close>, calculates nothing;
  \<^item> \<open>Blur\<close>: a percentage field loses the focus;
  \<^item> \<open>Keypress\<close>: a key is pressed in one of the fields.
\<close>

datatype event = Edit inputId field_text | Blur percentageInput | Keypress inputId string

fun step :: "event \<Rightarrow> page \<Rightarrow> page" where
  "step (Edit f t) p = set_value f t p"
| "step (Blur f) p = set_value (Percentage f) (percentageBlur (get_value (Percentage f) p)) p"
| "step (Keypress f k) p = (if k = ''Enter'' then calculateROI p else p)"




text \<open>
  A page for the examples: the form filled in with the figures of the worked examples, no
  placeholders, nothing calculated yet. The markup of the page is not among the
  sources.
\<close>

definition example_page :: page where
  "example_page =
     \<lparr>monthlyVolume_value = Num (dbl 10000), monthlyVolume_placeholder = Empty,
      creditCardPercentage_value = Num (dbl 50), creditCardPercentage_placeholder = Empty,
      competitorRate_value = Num (dbl 3), competitorRate_placeholder = Empty,
      competitorSaas_value = Num (dbl 100), competitorSaas_placeholder = Empty,
      diCost_value = Num (dbl 100), diCost_placeholder = Empty,
      compSaas_text = dbl 0, compProcessing_text = dbl 0, compTotal_text = dbl 0,
      diSaas_text = dbl 0, diProcessing_text = dbl 0, diTotal_text = dbl 0,
      monthlySavings_text = dbl 0, annualSavings_text = dbl 0,
      resultsSection_display = ''none'', alerts = []\<rparr>"

section \<open>Properties of the numbers\<close>

subsection \<open>Rounding to an integer\<close>

lemma round_even_of_int: "round_even (of_int n) = n"
  by (simp add: round_even_def)

lemma round_even_floor: "\<lfloor>x\<rfloor> \<le> round_even x \<and> round_even x \<le> \<lfloor>x\<rfloor> + 1"
  by (simp add: round_even_def Let_def)

lemma round_even_lower: "x - 1 / 2 \<le> of_int (round_even x)"
proof -
  have "x < of_int \<lfloor>x\<rfloor> + 1" by linarith
  then show ?thesis
    by (auto simp add: round_even_def Let_def)
qed

lemma round_even_upper: "of_int (round_even x) \<le> x + 1 / 2"
proof -
  have "of_int \<lfloor>x\<rfloor> \<le> x" by simp
  then show ?thesis
    by (auto simp add: round_even_def Let_def) linarith+
qed

lemma round_even_mono:
  assumes "x \<le> y"
  shows "round_even x \<le> round_even y"
proof (cases "\<lfloor>x\<rfloor> = \<lfloor>y\<rfloor>")
  case True
  with assms have "x - of_int \<lfloor>x\<rfloor> \<le> y - of_int \<lfloor>y\<rfloor>" by simp
  with True show ?thesis
    by (auto simp add: round_even_def Let_def)
next
  case False
  with assms have "\<lfloor>x\<rfloor> + 1 \<le> \<lfloor>y\<rfloor>"
    using floor_mono [of x y] by linarith
  then show ?thesis
    using round_even_floor [of x] round_even_floor [of y] by linarith
qed

lemma round_even_ge:
  assumes "of_int a \<le> x" shows "a \<le> round_even x"
  using round_even_mono [OF assms] by (simp add: round_even_of_int)

lemma round_even_le:
  assumes "x \<le> of_int b" shows "round_even x \<le> b"
  using round_even_mono [OF assms] by (simp add: round_even_of_int)

subsection \<open>The binary exponent\<close>

lemma two_powi_pos: "(0::rat) < 2 powi k"
  by (simp add: power_int_def)

lemma two_powi_le: "a \<le> b \<Longrightarrow> (2::rat) powi a \<le> 2 powi b"
  by (rule power_int_increasing) simp_all

lemma two_powi_less_iff: "(2::rat) powi a < 2 powi b \<longleftrightarrow> a < b"
proof
  assume "(2::rat) powi a < 2 powi b"
  show "a < b"
  proof (rule ccontr)
    assume "\<not> a < b"
    then have "(2::rat) powi b \<le> 2 powi a"
      by (simp add: two_powi_le)
    with \<open>(2::rat) powi a < 2 powi b\<close> show False by simp
  qed
next
  assume "a < b"
  then show "(2::rat) powi a < 2 powi b"
    by (rule power_int_strict_increasing) simp
qed

lemma bitlen_rat_bounds:
  assumes "0 < p"
  shows "(2::rat) powi (bitlen p - 1) \<le> of_int p \<and> of_int p < (2::rat) powi bitlen p"
proof -
  have b: "1 \<le> bitlen p"
    using assms by (auto simp add: bitlen_alt_def)
  have "2 ^ nat (bitlen p - 1) \<le> p \<and> p < 2 ^ nat (bitlen p)"
    using bitlen_bounds [OF assms] .
  then have "(of_int (2 ^ nat (bitlen p - 1)) :: rat) \<le> of_int p
      \<and> (of_int p :: rat) < of_int (2 ^ nat (bitlen p))"
    by (simp only: of_int_le_iff of_int_less_iff)
  then show ?thesis
    using b by (simp add: power_int_nonneg_exp)
qed

lemma exponent_bounds:
  assumes "0 < x"
  shows "2 powi exponent x \<le> x \<and> x < 2 powi (exponent x + 1)"
proof -
  obtain p q where pq: "quotient_of x = (p, q)"
    by (cases "quotient_of x")
  have q: "0 < q"
    using pq by (rule quotient_of_denom_pos)
  have x: "x = of_int p / of_int q"
    using pq by (rule quotient_of_div)
  have p: "0 < p"
    using assms q x by (simp add: zero_less_divide_iff)
  define k where "k = bitlen p - bitlen q"
  have P: "(2::rat) powi (bitlen p - 1) \<le> of_int p" "of_int p < (2::rat) powi bitlen p"
    using bitlen_rat_bounds [OF p] by simp_all
  have Q: "(2::rat) powi (bitlen q - 1) \<le> of_int q" "of_int q < (2::rat) powi bitlen q"
    using bitlen_rat_bounds [OF q] by simp_all
  have Qpos: "(0::rat) < of_int q"
    using q by simp
  have up: "x < 2 powi (k + 1)"
  proof -
    have "x * of_int q = of_int p"
      using x Qpos by simp
    also have "\<dots> < 2 powi bitlen p"
      by (rule P(2))
    also have "\<dots> = 2 powi (k + 1) * 2 powi (bitlen q - 1)"
      by (simp add: k_def power_int_add [symmetric])
    also have "\<dots> \<le> 2 powi (k + 1) * of_int q"
      using Q(1) two_powi_pos [of "k + 1"] by (simp add: mult_left_mono)
    finally show ?thesis
      using Qpos by simp
  qed
  have lo: "2 powi (k - 1) \<le> x"
  proof -
    have "(2::rat) powi (k - 1) * of_int q \<le> 2 powi (k - 1) * 2 powi bitlen q"
      using Q(2) two_powi_pos [of "k - 1"] by (simp add: mult_left_mono)
    also have "\<dots> = 2 powi (bitlen p - 1)"
      by (simp add: k_def power_int_add [symmetric])
    also have "\<dots> \<le> of_int p"
      by (rule P(1))
    also have "\<dots> = x * of_int q"
      using x Qpos by simp
    finally show ?thesis
      using Qpos by simp
  qed
  have e: "exponent x = (if 2 powi k \<le> x then k else k - 1)"
    by (simp add: exponent_def pq k_def Let_def)
  show ?thesis
  proof (cases "2 powi k \<le> x")
    case True
    then show ?thesis using e up by simp
  next
    case False
    then show ?thesis using e lo by simp
  qed
qed

lemma exponent_unique:
  assumes "2 powi e \<le> x" and "x < 2 powi (e + 1)"
  shows "exponent x = e"
proof -
  have pos: "0 < x"
    using assms(1) two_powi_pos [of e] by (rule less_le_trans [rotated])
  have b: "2 powi exponent x \<le> x" "x < 2 powi (exponent x + 1)"
    using exponent_bounds [OF pos] by simp_all
  have "(2::rat) powi e < 2 powi (exponent x + 1)"
    using assms(1) b(2) by (rule le_less_trans)
  then have 1: "e < exponent x + 1"
    by (simp add: two_powi_less_iff)
  have "(2::rat) powi exponent x < 2 powi (e + 1)"
    using b(1) assms(2) by (rule le_less_trans)
  then have 2: "exponent x < e + 1"
    by (simp add: two_powi_less_iff)
  show ?thesis using 1 2 by simp
qed

subsection \<open>Properties of the rounding\<close>

lemma rnd_0: "rnd 0 = 0"
  by (simp add: rnd_def)

lemma rnd_minus: "rnd (- x) = - rnd x"
  by (simp add: rnd_def Let_def sgn_minus)

lemma rnd_pos_eq:
  assumes "0 < x"
  shows "rnd x = of_int (round_even (x / 2 powi (exponent x - 52))) * 2 powi (exponent x - 52)"
  using assms by (simp add: rnd_def Let_def)

lemma rnd_at_exponent:
  assumes "2 powi e \<le> x" and "x < 2 powi (e + 1)"
  shows "rnd x = of_int (round_even (x / 2 powi (e - 52))) * 2 powi (e - 52)"
proof -
  have "0 < x"
    using assms(1) two_powi_pos [of e] by (rule less_le_trans [rotated])
  then show ?thesis
    using exponent_unique [OF assms] by (simp add: rnd_pos_eq)
qed

lemma two_powi_split: "(2::rat) powi e = 2 ^ 52 * 2 powi (e - 52)"
proof -
  have "(2::rat) powi e = 2 powi (52 + (e - 52))" by simp
  also have "\<dots> = 2 powi 52 * 2 powi (e - 52)"
    by (rule power_int_add) simp
  finally show ?thesis by simp
qed

lemma mantissa_bounds:
  assumes "2 powi e \<le> x" and "x < 2 powi (e + 1)"
  shows "2 ^ 52 \<le> round_even (x / 2 powi (e - 52))"
    and "round_even (x / 2 powi (e - 52)) \<le> 2 ^ 53"
proof -
  let ?u = "(2::rat) powi (e - 52)"
  have u: "0 < ?u" by (rule two_powi_pos)
  have "2 ^ 52 * ?u \<le> x"
    using assms(1) two_powi_split [of e] by simp
  then have "of_int (2 ^ 52) \<le> x / ?u"
    using u by (simp add: pos_le_divide_eq)
  then show "2 ^ 52 \<le> round_even (x / ?u)"
    by (rule round_even_ge)
  have "x \<le> 2 ^ 52 * 2 powi (e + 1 - 52)"
    using assms(2) two_powi_split [of "e + 1"] by simp
  also have "(2::rat) powi (e + 1 - 52) = 2 powi (1 + (e - 52))"
    by (simp add: algebra_simps)
  also have "\<dots> = 2 * ?u"
    by (subst power_int_add) simp_all
  finally have "x \<le> 2 ^ 53 * ?u" by simp
  then have "x / ?u \<le> of_int (2 ^ 53)"
    using u by (simp add: pos_divide_le_eq)
  then show "round_even (x / ?u) \<le> 2 ^ 53"
    by (rule round_even_le)
qed

lemma rnd_bounds:
  assumes "2 powi e \<le> x" and "x < 2 powi (e + 1)"
  shows "2 powi e \<le> rnd x" and "rnd x \<le> 2 powi (e + 1)"
proof -
  let ?u = "(2::rat) powi (e - 52)"
  let ?m = "round_even (x / ?u)"
  have u: "0 < ?u" by (rule two_powi_pos)
  have r: "rnd x = of_int ?m * ?u"
    using assms by (rule rnd_at_exponent)
  have "(2::rat) ^ 52 \<le> of_int ?m"
    using mantissa_bounds(1) [OF assms] by (metis of_int_le_iff of_int_numeral of_int_power)
  then have "2 ^ 52 * ?u \<le> of_int ?m * ?u"
    using u by (simp add: mult_right_mono)
  then show "2 powi e \<le> rnd x"
    using r two_powi_split [of e] by simp
  have "of_int ?m \<le> (2::rat) ^ 53"
    using mantissa_bounds(2) [OF assms] by (metis of_int_le_iff of_int_numeral of_int_power)
  then have "of_int ?m * ?u \<le> 2 ^ 53 * ?u"
    using u by (simp add: mult_right_mono)
  also have "\<dots> = 2 ^ 52 * 2 powi (1 + (e - 52))"
    by (subst power_int_add) simp_all
  also have "\<dots> = 2 powi (e + 1)"
    using two_powi_split [of "e + 1"] by (simp add: algebra_simps)
  finally show "rnd x \<le> 2 powi (e + 1)"
    using r by simp
qed

lemma rnd_pos:
  assumes "0 < x" shows "0 < rnd x"
proof -
  have "2 powi exponent x \<le> rnd x"
    using exponent_bounds [OF assms] by (simp add: rnd_bounds(1))
  then show ?thesis
    using two_powi_pos [of "exponent x"] by (rule less_le_trans [rotated])
qed

lemma rnd_grid:
  assumes "2 ^ 52 \<le> m" and "m < 2 ^ 53"
  shows "rnd (of_int m * 2 powi (e - 52)) = of_int m * 2 powi (e - 52)"
proof -
  let ?u = "(2::rat) powi (e - 52)"
  have u: "0 < ?u" by (rule two_powi_pos)
  have m1: "(2::rat) ^ 52 \<le> of_int m"
    using assms(1) by (metis of_int_le_iff of_int_numeral of_int_power)
  have m2: "of_int m < (2::rat) ^ 53"
    using assms(2) by (metis of_int_less_iff of_int_numeral of_int_power)
  have lo: "2 powi e \<le> of_int m * ?u"
    using m1 u two_powi_split [of e] by (simp add: mult_right_mono)
  have "of_int m * ?u < 2 ^ 53 * ?u"
    using m2 u by (simp add: mult_strict_right_mono)
  also have "\<dots> = 2 ^ 52 * 2 powi (1 + (e - 52))"
    by (subst power_int_add) simp_all
  also have "\<dots> = 2 powi (e + 1)"
    using two_powi_split [of "e + 1"] by (simp add: algebra_simps)
  finally have hi: "of_int m * ?u < 2 powi (e + 1)" .
  show ?thesis
    using rnd_at_exponent [OF lo hi] u by (simp add: round_even_of_int)
qed

lemma rnd_two_powi: "rnd (2 powi e) = 2 powi e"
  using rnd_grid [of "2 ^ 52" e] two_powi_split [of e] by simp

lemma rnd_idem_pos:
  assumes "0 < x" shows "rnd (rnd x) = rnd x"
proof -
  let ?e = "exponent x"
  let ?u = "(2::rat) powi (?e - 52)"
  let ?m = "round_even (x / ?u)"
  have b: "2 powi ?e \<le> x" "x < 2 powi (?e + 1)"
    using exponent_bounds [OF assms] by simp_all
  have r: "rnd x = of_int ?m * ?u"
    using assms by (rule rnd_pos_eq)
  have m: "2 ^ 52 \<le> ?m" "?m \<le> 2 ^ 53"
    using mantissa_bounds [OF b] by simp_all
  show ?thesis
  proof (cases "?m < 2 ^ 53")
    case True
    then show ?thesis
      using r rnd_grid [OF m(1) True, of ?e] by simp
  next
    case False
    with m(2) have "?m = 2 ^ 53" by simp
    then have "rnd x = 2 ^ 53 * ?u"
      using r by simp
    also have "\<dots> = 2 ^ 52 * 2 powi (1 + (?e - 52))"
      by (subst power_int_add) simp_all
    also have "\<dots> = 2 powi (?e + 1)"
      using two_powi_split [of "?e + 1"] by (simp add: algebra_simps)
    finally show ?thesis
      by (simp add: rnd_two_powi)
  qed
qed

lemma rnd_idem: "rnd (rnd x) = rnd x"
proof (cases "0 < x")
  case True
  then show ?thesis by (rule rnd_idem_pos)
next
  case False
  show ?thesis
  proof (cases "x = 0")
    case True
    then show ?thesis by (simp add: rnd_0)
  next
    case False
    with \<open>\<not> 0 < x\<close> have "0 < - x" by simp
    then have "rnd (rnd (- x)) = rnd (- x)" by (rule rnd_idem_pos)
    then show ?thesis by (simp add: rnd_minus)
  qed
qed

lemma rnd_mono_pos:
  assumes "0 < x" and "x \<le> y"
  shows "rnd x \<le> rnd y"
proof -
  have y: "0 < y" using assms by simp
  let ?e = "exponent x" and ?f = "exponent y"
  have bx: "2 powi ?e \<le> x" "x < 2 powi (?e + 1)"
    using exponent_bounds [OF assms(1)] by simp_all
  have bnd: "2 powi ?f \<le> y" "y < 2 powi (?f + 1)"
    using exponent_bounds [OF y] by simp_all
  have "(2::rat) powi ?e < 2 powi (?f + 1)"
    using bx(1) assms(2) bnd(2) by linarith
  then have le: "?e \<le> ?f"
    by (simp add: two_powi_less_iff)
  show ?thesis
  proof (cases "?e = ?f")
    case True
    let ?u = "(2::rat) powi (?e - 52)"
    have u: "0 < ?u" by (rule two_powi_pos)
    have "x / ?u \<le> y / ?u"
      using assms(2) u by (simp add: divide_right_mono)
    then have "round_even (x / ?u) \<le> round_even (y / ?u)"
      by (rule round_even_mono)
    then have "(of_int (round_even (x / ?u)) :: rat) \<le> of_int (round_even (y / ?u))"
      by simp
    then have "of_int (round_even (x / ?u)) * ?u \<le> of_int (round_even (y / ?u)) * ?u"
      using u by (simp add: mult_right_mono)
    then show ?thesis
      using True by (simp add: rnd_pos_eq assms(1) y)
  next
    case False
    with le have "?e + 1 \<le> ?f" by simp
    then have "(2::rat) powi (?e + 1) \<le> 2 powi ?f"
      by (rule two_powi_le)
    moreover have "rnd x \<le> 2 powi (?e + 1)"
      using bx by (rule rnd_bounds(2))
    moreover have "2 powi ?f \<le> rnd y"
      using bnd by (rule rnd_bounds(1))
    ultimately show ?thesis by linarith
  qed
qed

lemma rnd_nonneg: "0 \<le> x \<Longrightarrow> 0 \<le> rnd x"
  using rnd_pos [of x] by (cases "x = 0") (simp_all add: rnd_0 less_imp_le)

lemma rnd_nonpos: "x \<le> 0 \<Longrightarrow> rnd x \<le> 0"
  using rnd_nonneg [of "- x"] by (simp add: rnd_minus)

lemma rnd_mono:
  assumes "x \<le> y"
  shows "rnd x \<le> rnd y"
proof (cases "0 < x")
  case True
  then show ?thesis using assms by (rule rnd_mono_pos)
next
  case False
  then have x: "x \<le> 0" by simp
  show ?thesis
  proof (cases "y < 0")
    case True
    then have "0 < - y" "- y \<le> - x" using assms by simp_all
    then have "rnd (- y) \<le> rnd (- x)" by (rule rnd_mono_pos)
    then show ?thesis by (simp add: rnd_minus)
  next
    case False
    then have "0 \<le> rnd y" by (simp add: rnd_nonneg)
    moreover have "rnd x \<le> 0" using x by (rule rnd_nonpos)
    ultimately show ?thesis by simp
  qed
qed

lemma rnd_error_pos:
  assumes "0 < x"
  shows "\<bar>rnd x - x\<bar> \<le> x / 2 ^ 53"
proof -
  let ?e = "exponent x"
  let ?u = "(2::rat) powi (?e - 52)"
  let ?m = "round_even (x / ?u)"
  have u: "0 < ?u" by (rule two_powi_pos)
  have b: "2 powi ?e \<le> x"
    using exponent_bounds [OF assms] by simp
  have "\<bar>of_int ?m - x / ?u\<bar> \<le> 1 / 2"
    using round_even_lower [of "x / ?u"] round_even_upper [of "x / ?u"] by linarith
  then have "\<bar>of_int ?m - x / ?u\<bar> * ?u \<le> 1 / 2 * ?u"
    using u by (simp add: mult_right_mono)
  moreover have "\<bar>of_int ?m - x / ?u\<bar> * ?u = \<bar>of_int ?m * ?u - x\<bar>"
  proof -
    have "\<bar>of_int ?m - x / ?u\<bar> * ?u = \<bar>(of_int ?m - x / ?u) * ?u\<bar>"
      using u by (simp add: abs_mult)
    also have "(of_int ?m - x / ?u) * ?u = of_int ?m * ?u - x"
      using u by (simp add: algebra_simps)
    finally show ?thesis .
  qed
  ultimately have "\<bar>rnd x - x\<bar> \<le> ?u / 2"
    using assms by (simp add: rnd_pos_eq)
  also have "?u / 2 = 2 powi ?e / 2 ^ 53"
    using two_powi_split [of ?e] by simp
  also have "\<dots> \<le> x / 2 ^ 53"
    using b by (simp add: divide_right_mono)
  finally show ?thesis .
qed

lemma rnd_error: "\<bar>rnd x - x\<bar> \<le> \<bar>x\<bar> / 2 ^ 53"
proof (cases "0 < x")
  case True
  then show ?thesis using rnd_error_pos [of x] by simp
next
  case False
  show ?thesis
  proof (cases "x = 0")
    case True
    then show ?thesis by (simp add: rnd_0)
  next
    case False
    with \<open>\<not> 0 < x\<close> have n: "0 < - x" by simp
    have "\<bar>rnd (- x) - (- x)\<bar> \<le> (- x) / 2 ^ 53"
      using n by (rule rnd_error_pos)
    moreover have "\<bar>rnd (- x) - (- x)\<bar> = \<bar>rnd x - x\<bar>"
      by (simp add: rnd_minus abs_minus_commute)
    ultimately show ?thesis using n by simp
  qed
qed

text \<open>
  A rounding is certified by the significand \<open>m\<close> and the unit \<open>2 powi k\<close> of its result:
  the exact value lies in the binade of that unit, less than half a unit from the result.
\<close>

lemma round_even_unique:
  assumes "\<bar>x - of_int m\<bar> < 1 / 2"
  shows "round_even x = m"
proof -
  have b: "of_int m - 1 / 2 < x" "x < of_int m + 1 / 2"
    using assms by linarith+
  have "m - 1 \<le> \<lfloor>x\<rfloor>"
    using b(1) by (simp add: le_floor_iff) 
  moreover have "\<lfloor>x\<rfloor> \<le> m"
    using b(2) by (simp add: floor_le_iff)
  ultimately consider "\<lfloor>x\<rfloor> = m" | "\<lfloor>x\<rfloor> = m - 1"
    by linarith
  then show ?thesis
  proof cases
    case 1
    then show ?thesis
      using b by (simp add: round_even_def Let_def)
  next
    case 2
    then have "(of_int \<lfloor>x\<rfloor> :: rat) = of_int m - 1" by simp
    then show ?thesis
      using b 2 by (simp add: round_even_def Let_def)
  qed
qed

lemma rnd_cert:
  assumes "c = of_int m * 2 powi k"
    and "2 ^ 52 * 2 powi k \<le> x" and "x < 2 ^ 53 * 2 powi k"
    and "\<bar>x - c\<bar> * 2 < 2 powi k"
  shows "rnd x = c"
proof -
  let ?u = "(2::rat) powi k"
  have u: "0 < ?u" by (rule two_powi_pos)
  have s: "(2::rat) powi (k + 52) = 2 ^ 52 * ?u"
    using two_powi_split [of "k + 52"] by simp
  have "(2::rat) powi (53 + k) = 2 powi 53 * ?u"
    by (rule power_int_add) simp
  then have s': "(2::rat) powi (k + 52 + 1) = 2 ^ 53 * ?u"
    by (simp add: add.commute)
  have lo: "2 powi (k + 52) \<le> x" using assms(2) s by simp
  have hi: "x < 2 powi (k + 52 + 1)" using assms(3) s' by simp
  have "\<bar>x / ?u - of_int m\<bar> = \<bar>(x - of_int m * ?u) / ?u\<bar>"
    using u by (simp add: diff_divide_distrib)
  also have "\<dots> = \<bar>x - c\<bar> / ?u"
    using u assms(1) by simp
  also have "\<dots> < 1 / 2"
    using assms(4) u by (simp add: pos_divide_less_eq)
  finally have "round_even (x / ?u) = m"
    by (rule round_even_unique)
  then show ?thesis
    using rnd_at_exponent [OF lo hi] assms(1) by simp
qed

lemma rnd_cert_neg:
  assumes "c = of_int m * 2 powi k"
    and "2 ^ 52 * 2 powi k \<le> - x" and "- x < 2 ^ 53 * 2 powi k"
    and "\<bar>- x - c\<bar> * 2 < 2 powi k"
  shows "rnd x = - c"
  using rnd_cert [OF assms] rnd_minus [of x] by simp

lemma round_even_tie:
  assumes "\<bar>x - of_int m\<bar> = 1 / 2" and "even m"
  shows "round_even x = m"
proof -
  have "x - of_int m = 1 / 2 \<or> x - of_int m = - (1 / 2)"
    using assms(1) by (simp add: abs_if split: if_splits)
  then consider "x = of_int m + 1 / 2" | "x = of_int m - 1 / 2"
    by (auto simp add: algebra_simps)
  then show ?thesis
  proof cases
    case 1
    have "\<lfloor>x\<rfloor> = m"
      unfolding 1 by (simp add: floor_eq_iff)
    then show ?thesis
      using 1 assms(2) by (simp add: round_even_def Let_def)
  next
    case 2
    have f: "\<lfloor>x\<rfloor> = m - 1"
      unfolding 2 by (simp add: floor_eq_iff)
    have "x - of_int (m - 1) = 1 / 2"
      unfolding 2 by simp
    then show ?thesis
      using f assms(2) by (simp add: round_even_def Let_def)
  qed
qed

lemma rnd_cert_tie:
  assumes "c = of_int m * 2 powi k"
    and "2 ^ 52 * 2 powi k \<le> x" and "x < 2 ^ 53 * 2 powi k"
    and "\<bar>x - c\<bar> * 2 = 2 powi k" and "even m"
  shows "rnd x = c"
proof -
  let ?u = "(2::rat) powi k"
  have u: "0 < ?u" by (rule two_powi_pos)
  have s: "(2::rat) powi (k + 52) = 2 ^ 52 * ?u"
    using two_powi_split [of "k + 52"] by simp
  have "(2::rat) powi (53 + k) = 2 powi 53 * ?u"
    by (rule power_int_add) simp
  then have s': "(2::rat) powi (k + 52 + 1) = 2 ^ 53 * ?u"
    by (simp add: add.commute)
  have lo: "2 powi (k + 52) \<le> x" using assms(2) s by simp
  have hi: "x < 2 powi (k + 52 + 1)" using assms(3) s' by simp
  have "\<bar>x / ?u - of_int m\<bar> = \<bar>(x - of_int m * ?u) / ?u\<bar>"
    using u by (simp add: diff_divide_distrib)
  also have "\<dots> = \<bar>x - c\<bar> / ?u"
    using u assms(1) by simp
  also have "\<dots> = 1 / 2"
    using assms(4) u by (simp add: field_simps)
  finally have "round_even (x / ?u) = m"
    using assms(5) by (rule round_even_tie)
  then show ?thesis
    using rnd_at_exponent [OF lo hi] assms(1) by simp
qed

lemma rnd_cert_neg_tie:
  assumes "c = of_int m * 2 powi k"
    and "2 ^ 52 * 2 powi k \<le> - x" and "- x < 2 ^ 53 * 2 powi k"
    and "\<bar>- x - c\<bar> * 2 = 2 powi k" and "even m"
  shows "rnd x = - c"
  using rnd_cert_tie [OF assms] rnd_minus [of x] by simp

subsection \<open>Numbers and their exact values\<close>

lemma rnd_rat_of: "rnd (rat_of a) = rat_of a"
  using rat_of [of a] by simp

lemma dbl_rep: "rat_of (dbl x) = rnd x"
  by (simp add: dbl_def Abs_double_inverse rnd_idem)

lemma fadd_rep: "rat_of (fadd a b) = rnd (rat_of a + rat_of b)"
  by (simp add: fadd_def dbl_rep)

lemma fsub_rep: "rat_of (fsub a b) = rnd (rat_of a - rat_of b)"
  by (simp add: fsub_def dbl_rep)

lemma fmul_rep: "rat_of (fmul a b) = rnd (rat_of a * rat_of b)"
  by (simp add: fmul_def dbl_rep)

lemma fdiv_rep: "rat_of (fdiv a b) = rnd (rat_of a / rat_of b)"
  by (simp add: fdiv_def dbl_rep)

lemma fabs_rep: "rat_of (fabs a) = \<bar>rat_of a\<bar>"
proof (cases "0 \<le> rat_of a")
  case True
  then show ?thesis
    by (simp add: fabs_def dbl_rep rnd_rat_of)
next
  case False
  then have "\<bar>rat_of a\<bar> = - rat_of a" by simp
  then show ?thesis
    by (simp add: fabs_def dbl_rep rnd_minus rnd_rat_of)
qed

lemma double_eq_iff: "a = b \<longleftrightarrow> rat_of a = rat_of b"
  by (simp add: rat_of_inject)

lemmas double_rep =
  dbl_rep fadd_rep fsub_rep fmul_rep fdiv_rep less_eq_double_def less_double_def

section \<open>The roundings of the examples\<close>

text \<open>
  The arithmetic of the examples, one rounding at a time. A lemma \<open>lit\<close> gives the Number
  that a decimal literal denotes, as an exact fraction; a lemma \<open>round\<close> certifies the
  rounding of one exact sum, difference, product or quotient of such fractions; a lemma
  \<open>step\<close> is the same operation on Numbers. The lemmas named after an input evaluate the
  constants of \<open>calculateROI\<close> at that input: \<open>ex50\<close>, \<open>ex100\<close>, \<open>ex150\<close> and \<open>ex200\<close>
  are the input of the worked examples with a credit card percentage of 50, 100, 150
  and 200, \<open>flat50\<close> and \<open>cr200\<close> are inputs of the flat rate, and \<open>zero\<close> is the input
  at which the divisor of the effective rate vanishes.
\<close>

lemma round_1: "rnd (50 / 100) = 1 / 2"
  by (rule rnd_cert [where m = 4503599627370496 and k = "- 53"]) simp_all

lemma lit_50: "rnd 50 = 50"
  by (rule rnd_cert [where m = 7036874417766400 and k = "- 47"]) simp_all

lemma lit_100: "rnd 100 = 100"
  by (rule rnd_cert [where m = 7036874417766400 and k = "- 46"]) simp_all

lemma lit_0_5: "rnd 0.5 = 1 / 2"
  by (rule rnd_cert [where m = 4503599627370496 and k = "- 53"]) simp_all

lemma step_1: "fdiv (dbl 50) (dbl 100) = dbl 0.5"
  by (simp only: double_eq_iff fdiv_rep dbl_rep lit_0_5 lit_100 lit_50 rnd_minus round_1)

lemma round_2: "rnd (10000 * (1 / 2)) = 5000"
  by (rule rnd_cert [where m = 5497558138880000 and k = "- 40"]) simp_all

lemma lit_10000: "rnd 10000 = 10000"
  by (rule rnd_cert [where m = 5497558138880000 and k = "- 39"]) simp_all

lemma lit_5000: "rnd 5000 = 5000"
  by (rule rnd_cert [where m = 5497558138880000 and k = "- 40"]) simp_all

lemma step_2: "fmul (dbl 10000) (dbl 0.5) = dbl 5000"
  by (simp only: double_eq_iff fmul_rep dbl_rep lit_0_5 lit_10000 lit_5000 rnd_minus round_2)

lemma round_3: "rnd (10000 - 5000) = 5000"
  by (rule rnd_cert [where m = 5497558138880000 and k = "- 40"]) simp_all

lemma step_3: "fsub (dbl 10000) (dbl 5000) = dbl 5000"
  by (simp only: double_eq_iff fsub_rep dbl_rep lit_10000 lit_5000 rnd_minus round_3)

lemma round_4: "rnd (3 / 100) = 1080863910568919 / 36028797018963968"
  by (rule rnd_cert [where m = 8646911284551352 and k = "- 58"]) simp_all

lemma lit_3: "rnd 3 = 3"
  by (rule rnd_cert [where m = 6755399441055744 and k = "- 51"]) simp_all

lemma lit_0_03: "rnd 0.03 = 1080863910568919 / 36028797018963968"
  by (rule rnd_cert [where m = 8646911284551352 and k = "- 58"]) simp_all

lemma step_4: "fdiv (dbl 3) (dbl 100) = dbl 0.03"
  by (simp only: double_eq_iff fdiv_rep dbl_rep lit_0_03 lit_100 lit_3 rnd_minus round_4)

lemma round_5: "rnd (10000 * (1080863910568919 / 36028797018963968)) = 300"
  by (rule rnd_cert [where m = 5277655813324800 and k = "- 44"]) simp_all

lemma lit_300: "rnd 300 = 300"
  by (rule rnd_cert [where m = 5277655813324800 and k = "- 44"]) simp_all

lemma step_5: "fmul (dbl 10000) (dbl 0.03) = dbl 300"
  by (simp only: double_eq_iff fmul_rep dbl_rep lit_0_03 lit_10000 lit_300 rnd_minus round_5)

lemma round_6: "rnd (100 + 300) = 400"
  by (rule rnd_cert [where m = 7036874417766400 and k = "- 44"]) simp_all

lemma lit_400: "rnd 400 = 400"
  by (rule rnd_cert [where m = 7036874417766400 and k = "- 44"]) simp_all

lemma step_6: "fadd (dbl 100) (dbl 300) = dbl 400"
  by (simp only: double_eq_iff fadd_rep dbl_rep lit_100 lit_300 lit_400 rnd_minus round_6)

lemma round_7: "rnd (5000 * (1080863910568919 / 36028797018963968)) = 150"
  by (rule rnd_cert [where m = 5277655813324800 and k = "- 45"]) simp_all

lemma lit_150: "rnd 150 = 150"
  by (rule rnd_cert [where m = 5277655813324800 and k = "- 45"]) simp_all

lemma step_7: "fmul (dbl 5000) (dbl 0.03) = dbl 150"
  by (simp only: double_eq_iff fmul_rep dbl_rep lit_0_03 lit_150 lit_5000 rnd_minus round_7)

lemma round_8: "rnd (10000 + 150) = 10150"
  by (rule rnd_cert [where m = 5580021510963200 and k = "- 39"]) simp_all

lemma lit_10150: "rnd 10150 = 10150"
  by (rule rnd_cert [where m = 5580021510963200 and k = "- 39"]) simp_all

lemma step_8: "fadd (dbl 10000) (dbl 150) = dbl 10150"
  by (simp only: double_eq_iff fadd_rep dbl_rep lit_10000 lit_10150 lit_150 rnd_minus round_8)

lemma round_9: "rnd (10150 * (8396150857299363 / 288230376151711744)) = 81273013307179 / 274877906944"
  by (rule rnd_cert [where m = 5201472851659456 and k = "- 44"]) simp_all

lemma lit_0_02913: "rnd 0.02913 = 8396150857299363 / 288230376151711744"
  by (rule rnd_cert [where m = 8396150857299363 and k = "- 58"]) simp_all

lemma lit_295_66949999999997: "rnd 295.66949999999997 = 81273013307179 / 274877906944"
  by (rule rnd_cert [where m = 5201472851659456 and k = "- 44"]) simp_all

lemma step_9: "fmul (dbl 10150) (dbl 0.02913) = dbl 295.66949999999997"
  by (simp only: double_eq_iff fmul_rep dbl_rep lit_0_02913 lit_10150 lit_295_66949999999997 rnd_minus round_9)

lemma round_10: "rnd (5000 + 150) = 5150"
  by (rule rnd_cert [where m = 5662484883046400 and k = "- 40"]) simp_all

lemma lit_5150: "rnd 5150 = 5150"
  by (rule rnd_cert [where m = 5662484883046400 and k = "- 40"]) simp_all

lemma step_10: "fadd (dbl 5000) (dbl 150) = dbl 5150"
  by (simp only: double_eq_iff fadd_rep dbl_rep lit_150 lit_5000 lit_5150 rnd_minus round_10)

lemma round_11: "rnd (5150 * (8396150857299363 / 288230376151711744)) = 1319585477145133 / 8796093022208"
  by (rule rnd_cert [where m = 5278341908580532 and k = "- 45"]) simp_all

lemma lit_150_0195: "rnd 150.0195 = 1319585477145133 / 8796093022208"
  by (rule rnd_cert [where m = 5278341908580532 and k = "- 45"]) simp_all

lemma step_11: "fmul (dbl 5150) (dbl 0.02913) = dbl 150.0195"
  by (simp only: double_eq_iff fmul_rep dbl_rep lit_0_02913 lit_150_0195 lit_5150 rnd_minus round_11)

lemma round_12: "rnd ((81273013307179 / 274877906944) - (1319585477145133 / 8796093022208)) = 1281150948684595 / 8796093022208"
  by (rule rnd_cert [where m = 5124603794738380 and k = "- 45"]) simp_all

lemma lit_145_64999999999998: "rnd 145.64999999999998 = 1281150948684595 / 8796093022208"
  by (rule rnd_cert [where m = 5124603794738380 and k = "- 45"]) simp_all

lemma step_12: "fsub (dbl 295.66949999999997) (dbl 150.0195) = dbl 145.64999999999998"
  by (simp only: double_eq_iff fsub_rep dbl_rep lit_145_64999999999998 lit_150_0195 lit_295_66949999999997 rnd_minus round_12)

lemma round_13: "rnd (100 + (1281150948684595 / 8796093022208)) = 2160760250905395 / 8796093022208"
  by (rule rnd_cert [where m = 8643041003621580 and k = "- 45"]) simp_all

lemma lit_245_64999999999998: "rnd 245.64999999999998 = 2160760250905395 / 8796093022208"
  by (rule rnd_cert [where m = 8643041003621580 and k = "- 45"]) simp_all

lemma step_13: "fadd (dbl 100) (dbl 145.64999999999998) = dbl 245.64999999999998"
  by (simp only: double_eq_iff fadd_rep dbl_rep lit_100 lit_145_64999999999998 lit_245_64999999999998 rnd_minus round_13)

lemma round_14: "rnd (400 - (2160760250905395 / 8796093022208)) = 1357676957977805 / 8796093022208"
  by (rule rnd_cert [where m = 5430707831911220 and k = "- 45"]) simp_all

lemma lit_154_35000000000002: "rnd 154.35000000000002 = 1357676957977805 / 8796093022208"
  by (rule rnd_cert [where m = 5430707831911220 and k = "- 45"]) simp_all

lemma step_14: "fsub (dbl 400) (dbl 245.64999999999998) = dbl 154.35000000000002"
  by (simp only: double_eq_iff fsub_rep dbl_rep lit_154_35000000000002 lit_245_64999999999998 lit_400 rnd_minus round_14)

lemma round_15: "rnd ((1357676957977805 / 8796093022208) * 12) = 4073030873933415 / 2199023255552"
  by (rule rnd_cert [where m = 8146061747866830 and k = "- 42"]) simp_all

lemma lit_12: "rnd 12 = 12"
  by (rule rnd_cert [where m = 6755399441055744 and k = "- 49"]) simp_all

lemma lit_1852_2000000000003: "rnd 1852.2000000000003 = 4073030873933415 / 2199023255552"
  by (rule rnd_cert [where m = 8146061747866830 and k = "- 42"]) simp_all

lemma step_15: "fmul (dbl 154.35000000000002) (dbl 12) = dbl 1852.2000000000003"
  by (simp only: double_eq_iff fmul_rep dbl_rep lit_12 lit_154_35000000000002 lit_1852_2000000000003 rnd_minus round_15)

lemma ex50_creditCardVolume: "creditCardVolume
     \<lparr>monthlyVolume = dbl 10000, creditCardPercentage = dbl 50,
       competitorRate = dbl 3, competitorSaas = dbl 100, diCost = dbl 100\<rparr> = dbl 5000"
  by (simp only: creditCardVolume_def inputs.select_convs  step_1 step_2 step_3 step_4 step_5 step_6 step_7 step_8 step_9 step_10 step_11 step_12 step_13 step_14 step_15)

lemma ex50_debitVolume: "debitVolume
     \<lparr>monthlyVolume = dbl 10000, creditCardPercentage = dbl 50,
       competitorRate = dbl 3, competitorSaas = dbl 100, diCost = dbl 100\<rparr> = dbl 5000"
  by (simp only: debitVolume_def inputs.select_convs ex50_creditCardVolume step_1 step_2 step_3 step_4 step_5 step_6 step_7 step_8 step_9 step_10 step_11 step_12 step_13 step_14 step_15)

lemma ex50_competitorRateDecimal: "competitorRateDecimal
     \<lparr>monthlyVolume = dbl 10000, creditCardPercentage = dbl 50,
       competitorRate = dbl 3, competitorSaas = dbl 100, diCost = dbl 100\<rparr> = dbl 0.03"
  by (simp only: competitorRateDecimal_def inputs.select_convs  step_1 step_2 step_3 step_4 step_5 step_6 step_7 step_8 step_9 step_10 step_11 step_12 step_13 step_14 step_15)

lemma ex50_competitorProcessingCost: "competitorProcessingCost
     \<lparr>monthlyVolume = dbl 10000, creditCardPercentage = dbl 50,
       competitorRate = dbl 3, competitorSaas = dbl 100, diCost = dbl 100\<rparr> = dbl 300"
  by (simp only: competitorProcessingCost_def inputs.select_convs ex50_competitorRateDecimal step_1 step_2 step_3 step_4 step_5 step_6 step_7 step_8 step_9 step_10 step_11 step_12 step_13 step_14 step_15)

lemma ex50_competitorTotalCost: "competitorTotalCost
     \<lparr>monthlyVolume = dbl 10000, creditCardPercentage = dbl 50,
       competitorRate = dbl 3, competitorSaas = dbl 100, diCost = dbl 100\<rparr> = dbl 400"
  by (simp only: competitorTotalCost_def inputs.select_convs ex50_competitorProcessingCost step_1 step_2 step_3 step_4 step_5 step_6 step_7 step_8 step_9 step_10 step_11 step_12 step_13 step_14 step_15)

lemma ex50_surchargeCollected: "surchargeCollected
     \<lparr>monthlyVolume = dbl 10000, creditCardPercentage = dbl 50,
       competitorRate = dbl 3, competitorSaas = dbl 100, diCost = dbl 100\<rparr> = dbl 150"
  by (simp only: surchargeCollected_def inputs.select_convs ex50_creditCardVolume step_1 step_2 step_3 step_4 step_5 step_6 step_7 step_8 step_9 step_10 step_11 step_12 step_13 step_14 step_15)

lemma ex50_feesWithSurcharging: "feesWithSurcharging
     \<lparr>monthlyVolume = dbl 10000, creditCardPercentage = dbl 50,
       competitorRate = dbl 3, competitorSaas = dbl 100, diCost = dbl 100\<rparr> = dbl 145.64999999999998"
  by (simp only: feesWithSurcharging_def inputs.select_convs baseProcessingRate_def ex50_creditCardVolume ex50_surchargeCollected step_1 step_2 step_3 step_4 step_5 step_6 step_7 step_8 step_9 step_10 step_11 step_12 step_13 step_14 step_15)

lemma ex50_adjustedVolume: "adjustedVolume
     \<lparr>monthlyVolume = dbl 10000, creditCardPercentage = dbl 50,
       competitorRate = dbl 3, competitorSaas = dbl 100, diCost = dbl 100\<rparr> = dbl 10150"
  by (simp only: adjustedVolume_def inputs.select_convs ex50_surchargeCollected step_1 step_2 step_3 step_4 step_5 step_6 step_7 step_8 step_9 step_10 step_11 step_12 step_13 step_14 step_15)

lemma ex50_diProcessingCost: "diProcessingCost
     \<lparr>monthlyVolume = dbl 10000, creditCardPercentage = dbl 50,
       competitorRate = dbl 3, competitorSaas = dbl 100, diCost = dbl 100\<rparr> = dbl 145.64999999999998"
  by (simp only: diProcessingCost_def inputs.select_convs ex50_feesWithSurcharging step_1 step_2 step_3 step_4 step_5 step_6 step_7 step_8 step_9 step_10 step_11 step_12 step_13 step_14 step_15)

lemma ex50_diTotalCost: "diTotalCost
     \<lparr>monthlyVolume = dbl 10000, creditCardPercentage = dbl 50,
       competitorRate = dbl 3, competitorSaas = dbl 100, diCost = dbl 100\<rparr> = dbl 245.64999999999998"
  by (simp only: diTotalCost_def inputs.select_convs ex50_diProcessingCost step_1 step_2 step_3 step_4 step_5 step_6 step_7 step_8 step_9 step_10 step_11 step_12 step_13 step_14 step_15)

lemma ex50_monthlySavings: "monthlySavings
     \<lparr>monthlyVolume = dbl 10000, creditCardPercentage = dbl 50,
       competitorRate = dbl 3, competitorSaas = dbl 100, diCost = dbl 100\<rparr> = dbl 154.35000000000002"
  by (simp only: monthlySavings_def inputs.select_convs ex50_competitorTotalCost ex50_diTotalCost step_1 step_2 step_3 step_4 step_5 step_6 step_7 step_8 step_9 step_10 step_11 step_12 step_13 step_14 step_15)

lemma ex50_annualSavings: "annualSavings
     \<lparr>monthlyVolume = dbl 10000, creditCardPercentage = dbl 50,
       competitorRate = dbl 3, competitorSaas = dbl 100, diCost = dbl 100\<rparr> = dbl 1852.2000000000003"
  by (simp only: annualSavings_def inputs.select_convs ex50_monthlySavings step_1 step_2 step_3 step_4 step_5 step_6 step_7 step_8 step_9 step_10 step_11 step_12 step_13 step_14 step_15)

lemma cmp_16: "\<not> dbl 10000 \<le> dbl 0"
  by (simp only: less_eq_double_def less_double_def dbl_rep lit_10000 rnd_0 rnd_minus)

lemma ex50_core: "calculateROI_core
     \<lparr>monthlyVolume = dbl 10000, creditCardPercentage = dbl 50,
       competitorRate = dbl 3, competitorSaas = dbl 100, diCost = dbl 100\<rparr> =
     Inr \<lparr>data_competitorSaas = dbl 100, data_competitorProcessing = dbl 300,
          data_competitorTotal = dbl 400, data_diSaas = dbl 100,
          data_diProcessing = dbl 145.64999999999998, data_diTotal = dbl 245.64999999999998,
          data_monthlySavings = dbl 154.35000000000002, data_annualSavings = dbl 1852.2000000000003\<rparr>"
  by (simp only: calculateROI_core_def inputs.select_convs cmp_16 if_False ex50_competitorProcessingCost ex50_competitorTotalCost ex50_diProcessingCost ex50_diTotalCost ex50_monthlySavings ex50_annualSavings)

lemma round_17: "rnd ((6260003482044989 / 4503599627370496) / 100) = 4006402228508793 / 288230376151711744"
  by (rule rnd_cert [where m = 8012804457017586 and k = "- 59"]) simp_all

lemma lit_1_39: "rnd 1.39 = 6260003482044989 / 4503599627370496"
  by (rule rnd_cert [where m = 6260003482044989 and k = "- 52"]) simp_all

lemma lit_0_0139: "rnd 0.0139 = 4006402228508793 / 288230376151711744"
  by (rule rnd_cert [where m = 8012804457017586 and k = "- 59"]) simp_all

lemma step_17: "fdiv (dbl 1.39) (dbl 100) = dbl 0.0139"
  by (simp only: double_eq_iff fdiv_rep dbl_rep lit_0_0139 lit_100 lit_1_39 rnd_minus round_17)

lemma round_18: "rnd (10000 * (4006402228508793 / 288230376151711744)) = 139"
  by (rule rnd_cert [where m = 4890627720347648 and k = "- 45"]) simp_all

lemma lit_139: "rnd 139 = 139"
  by (rule rnd_cert [where m = 4890627720347648 and k = "- 45"]) simp_all

lemma step_18: "fmul (dbl 10000) (dbl 0.0139) = dbl 139"
  by (simp only: double_eq_iff fmul_rep dbl_rep lit_0_0139 lit_10000 lit_139 rnd_minus round_18)

lemma round_19: "rnd (100 + 139) = 239"
  by (rule rnd_cert [where m = 8409064929230848 and k = "- 45"]) simp_all

lemma lit_239: "rnd 239 = 239"
  by (rule rnd_cert [where m = 8409064929230848 and k = "- 45"]) simp_all

lemma step_19: "fadd (dbl 100) (dbl 139) = dbl 239"
  by (simp only: double_eq_iff fadd_rep dbl_rep lit_100 lit_139 lit_239 rnd_minus round_19)

lemma round_20: "rnd (400 - 239) = 161"
  by (rule rnd_cert [where m = 5664683906301952 and k = "- 45"]) simp_all

lemma lit_161: "rnd 161 = 161"
  by (rule rnd_cert [where m = 5664683906301952 and k = "- 45"]) simp_all

lemma step_20: "fsub (dbl 400) (dbl 239) = dbl 161"
  by (simp only: double_eq_iff fsub_rep dbl_rep lit_161 lit_239 lit_400 rnd_minus round_20)

lemma round_21: "rnd (161 * 12) = 1932"
  by (rule rnd_cert [where m = 8497025859452928 and k = "- 42"]) simp_all

lemma lit_1932: "rnd 1932 = 1932"
  by (rule rnd_cert [where m = 8497025859452928 and k = "- 42"]) simp_all

lemma step_21: "fmul (dbl 161) (dbl 12) = dbl 1932"
  by (simp only: double_eq_iff fmul_rep dbl_rep lit_12 lit_161 lit_1932 rnd_minus round_21)

lemma flat50_competitorRateDecimal: "competitorRateDecimal
     \<lparr>monthlyVolume = dbl 10000, creditCardPercentage = c,
       competitorRate = dbl 3, competitorSaas = dbl 100, diCost = dbl 100\<rparr> = dbl 0.03"
  by (simp only: competitorRateDecimal_def inputs.select_convs  step_4 step_5 step_6 step_17 step_18 step_19 step_20 step_21)

lemma flat50_competitorProcessingCost: "competitorProcessingCost
     \<lparr>monthlyVolume = dbl 10000, creditCardPercentage = c,
       competitorRate = dbl 3, competitorSaas = dbl 100, diCost = dbl 100\<rparr> = dbl 300"
  by (simp only: competitorProcessingCost_def inputs.select_convs flat50_competitorRateDecimal step_4 step_5 step_6 step_17 step_18 step_19 step_20 step_21)

lemma flat50_competitorTotalCost: "competitorTotalCost
     \<lparr>monthlyVolume = dbl 10000, creditCardPercentage = c,
       competitorRate = dbl 3, competitorSaas = dbl 100, diCost = dbl 100\<rparr> = dbl 400"
  by (simp only: competitorTotalCost_def inputs.select_convs flat50_competitorProcessingCost step_4 step_5 step_6 step_17 step_18 step_19 step_20 step_21)

lemma rate_decimal: "DI_SURCHARGE_RATE_DECIMAL = dbl 0.0139"
  by (simp only: DI_SURCHARGE_RATE_DECIMAL_def DI_SURCHARGE_RATE_def step_4 step_5 step_6 step_17 step_18 step_19 step_20 step_21)

lemma flat50_diProcessingCost_flat: "diProcessingCost_flat
     \<lparr>monthlyVolume = dbl 10000, creditCardPercentage = c,
       competitorRate = dbl 3, competitorSaas = dbl 100, diCost = dbl 100\<rparr> = dbl 139"
  by (simp only: diProcessingCost_flat_def inputs.select_convs rate_decimal step_4 step_5 step_6 step_17 step_18 step_19 step_20 step_21)

lemma flat50_diTotalCost_flat: "diTotalCost_flat
     \<lparr>monthlyVolume = dbl 10000, creditCardPercentage = c,
       competitorRate = dbl 3, competitorSaas = dbl 100, diCost = dbl 100\<rparr> = dbl 239"
  by (simp only: diTotalCost_flat_def inputs.select_convs flat50_diProcessingCost_flat step_4 step_5 step_6 step_17 step_18 step_19 step_20 step_21)

lemma flat50_monthlySavings_flat: "monthlySavings_flat
     \<lparr>monthlyVolume = dbl 10000, creditCardPercentage = c,
       competitorRate = dbl 3, competitorSaas = dbl 100, diCost = dbl 100\<rparr> = dbl 161"
  by (simp only: monthlySavings_flat_def inputs.select_convs flat50_competitorTotalCost flat50_diTotalCost_flat step_4 step_5 step_6 step_17 step_18 step_19 step_20 step_21)

lemma flat50_annualSavings_flat: "annualSavings_flat
     \<lparr>monthlyVolume = dbl 10000, creditCardPercentage = c,
       competitorRate = dbl 3, competitorSaas = dbl 100, diCost = dbl 100\<rparr> = dbl 1932"
  by (simp only: annualSavings_flat_def inputs.select_convs flat50_monthlySavings_flat step_4 step_5 step_6 step_17 step_18 step_19 step_20 step_21)

lemma flat50_core_flat: "calculateROI_core_flat
     \<lparr>monthlyVolume = dbl 10000, creditCardPercentage = c,
       competitorRate = dbl 3, competitorSaas = dbl 100, diCost = dbl 100\<rparr> =
     Inr \<lparr>data_competitorSaas = dbl 100, data_competitorProcessing = dbl 300,
          data_competitorTotal = dbl 400, data_diSaas = dbl 100,
          data_diProcessing = dbl 139, data_diTotal = dbl 239,
          data_monthlySavings = dbl 161, data_annualSavings = dbl 1932\<rparr>"
  by (simp only: calculateROI_core_flat_def inputs.select_convs cmp_16 if_False flat50_competitorProcessingCost flat50_competitorTotalCost flat50_diProcessingCost_flat flat50_diTotalCost_flat flat50_monthlySavings_flat flat50_annualSavings_flat)

lemma round_22: "rnd (100 / 100) = 1"
  by (rule rnd_cert [where m = 4503599627370496 and k = "- 52"]) simp_all

lemma lit_1: "rnd 1 = 1"
  by (rule rnd_cert [where m = 4503599627370496 and k = "- 52"]) simp_all

lemma step_22: "fdiv (dbl 100) (dbl 100) = dbl 1"
  by (simp only: double_eq_iff fdiv_rep dbl_rep lit_1 lit_100 rnd_minus round_22)

lemma round_23: "rnd (10000 * 1) = 10000"
  by (rule rnd_cert [where m = 5497558138880000 and k = "- 39"]) simp_all

lemma step_23: "fmul (dbl 10000) (dbl 1) = dbl 10000"
  by (simp only: double_eq_iff fmul_rep dbl_rep lit_1 lit_10000 rnd_minus round_23)

lemma round_24: "rnd (10000 - 10000) = 0"
  by (simp add: rnd_0)

lemma step_24: "fsub (dbl 10000) (dbl 10000) = dbl 0"
  by (simp only: double_eq_iff fsub_rep dbl_rep lit_10000 rnd_0 rnd_minus round_24)

lemma round_25: "rnd (10000 + 300) = 10300"
  by (rule rnd_cert [where m = 5662484883046400 and k = "- 39"]) simp_all

lemma lit_10300: "rnd 10300 = 10300"
  by (rule rnd_cert [where m = 5662484883046400 and k = "- 39"]) simp_all

lemma step_25: "fadd (dbl 10000) (dbl 300) = dbl 10300"
  by (simp only: double_eq_iff fadd_rep dbl_rep lit_10000 lit_10300 lit_300 rnd_minus round_25)

lemma round_26: "rnd (10300 * (8396150857299363 / 288230376151711744)) = 1319585477145133 / 4398046511104"
  by (rule rnd_cert [where m = 5278341908580532 and k = "- 44"]) simp_all

lemma lit_300_039: "rnd 300.039 = 1319585477145133 / 4398046511104"
  by (rule rnd_cert [where m = 5278341908580532 and k = "- 44"]) simp_all

lemma step_26: "fmul (dbl 10300) (dbl 0.02913) = dbl 300.039"
  by (simp only: double_eq_iff fmul_rep dbl_rep lit_0_02913 lit_10300 lit_300_039 rnd_minus round_26)

lemma round_27: "rnd ((1319585477145133 / 4398046511104) - (1319585477145133 / 4398046511104)) = 0"
  by (simp add: rnd_0)

lemma step_27: "fsub (dbl 300.039) (dbl 300.039) = dbl 0"
  by (simp only: double_eq_iff fsub_rep dbl_rep lit_300_039 rnd_0 rnd_minus round_27)

lemma round_28: "rnd (100 + 0) = 100"
  by (rule rnd_cert [where m = 7036874417766400 and k = "- 46"]) simp_all

lemma step_28: "fadd (dbl 100) (dbl 0) = dbl 100"
  by (simp only: double_eq_iff fadd_rep dbl_rep lit_100 rnd_0 rnd_minus round_28)

lemma round_29: "rnd (400 - 100) = 300"
  by (rule rnd_cert [where m = 5277655813324800 and k = "- 44"]) simp_all

lemma step_29: "fsub (dbl 400) (dbl 100) = dbl 300"
  by (simp only: double_eq_iff fsub_rep dbl_rep lit_100 lit_300 lit_400 rnd_minus round_29)

lemma round_30: "rnd (300 * 12) = 3600"
  by (rule rnd_cert [where m = 7916483719987200 and k = "- 41"]) simp_all

lemma lit_3600: "rnd 3600 = 3600"
  by (rule rnd_cert [where m = 7916483719987200 and k = "- 41"]) simp_all

lemma step_30: "fmul (dbl 300) (dbl 12) = dbl 3600"
  by (simp only: double_eq_iff fmul_rep dbl_rep lit_12 lit_300 lit_3600 rnd_minus round_30)

lemma ex100_creditCardVolume: "creditCardVolume
     \<lparr>monthlyVolume = dbl 10000, creditCardPercentage = dbl 100,
       competitorRate = dbl 3, competitorSaas = dbl 100, diCost = dbl 100\<rparr> = dbl 10000"
  by (simp only: creditCardVolume_def inputs.select_convs  step_22 step_23 step_24 step_4 step_5 step_6 step_25 step_26 step_27 step_28 step_29 step_30)

lemma ex100_debitVolume: "debitVolume
     \<lparr>monthlyVolume = dbl 10000, creditCardPercentage = dbl 100,
       competitorRate = dbl 3, competitorSaas = dbl 100, diCost = dbl 100\<rparr> = dbl 0"
  by (simp only: debitVolume_def inputs.select_convs ex100_creditCardVolume step_22 step_23 step_24 step_4 step_5 step_6 step_25 step_26 step_27 step_28 step_29 step_30)

lemma ex100_competitorRateDecimal: "competitorRateDecimal
     \<lparr>monthlyVolume = dbl 10000, creditCardPercentage = dbl 100,
       competitorRate = dbl 3, competitorSaas = dbl 100, diCost = dbl 100\<rparr> = dbl 0.03"
  by (simp only: competitorRateDecimal_def inputs.select_convs  step_22 step_23 step_24 step_4 step_5 step_6 step_25 step_26 step_27 step_28 step_29 step_30)

lemma ex100_competitorProcessingCost: "competitorProcessingCost
     \<lparr>monthlyVolume = dbl 10000, creditCardPercentage = dbl 100,
       competitorRate = dbl 3, competitorSaas = dbl 100, diCost = dbl 100\<rparr> = dbl 300"
  by (simp only: competitorProcessingCost_def inputs.select_convs ex100_competitorRateDecimal step_22 step_23 step_24 step_4 step_5 step_6 step_25 step_26 step_27 step_28 step_29 step_30)

lemma ex100_competitorTotalCost: "competitorTotalCost
     \<lparr>monthlyVolume = dbl 10000, creditCardPercentage = dbl 100,
       competitorRate = dbl 3, competitorSaas = dbl 100, diCost = dbl 100\<rparr> = dbl 400"
  by (simp only: competitorTotalCost_def inputs.select_convs ex100_competitorProcessingCost step_22 step_23 step_24 step_4 step_5 step_6 step_25 step_26 step_27 step_28 step_29 step_30)

lemma ex100_surchargeCollected: "surchargeCollected
     \<lparr>monthlyVolume = dbl 10000, creditCardPercentage = dbl 100,
       competitorRate = dbl 3, competitorSaas = dbl 100, diCost = dbl 100\<rparr> = dbl 300"
  by (simp only: surchargeCollected_def inputs.select_convs ex100_creditCardVolume step_22 step_23 step_24 step_4 step_5 step_6 step_25 step_26 step_27 step_28 step_29 step_30)

lemma ex100_feesWithSurcharging: "feesWithSurcharging
     \<lparr>monthlyVolume = dbl 10000, creditCardPercentage = dbl 100,
       competitorRate = dbl 3, competitorSaas = dbl 100, diCost = dbl 100\<rparr> = dbl 0"
  by (simp only: feesWithSurcharging_def inputs.select_convs baseProcessingRate_def ex100_creditCardVolume ex100_surchargeCollected step_22 step_23 step_24 step_4 step_5 step_6 step_25 step_26 step_27 step_28 step_29 step_30)

lemma ex100_adjustedVolume: "adjustedVolume
     \<lparr>monthlyVolume = dbl 10000, creditCardPercentage = dbl 100,
       competitorRate = dbl 3, competitorSaas = dbl 100, diCost = dbl 100\<rparr> = dbl 10300"
  by (simp only: adjustedVolume_def inputs.select_convs ex100_surchargeCollected step_22 step_23 step_24 step_4 step_5 step_6 step_25 step_26 step_27 step_28 step_29 step_30)

lemma ex100_diProcessingCost: "diProcessingCost
     \<lparr>monthlyVolume = dbl 10000, creditCardPercentage = dbl 100,
       competitorRate = dbl 3, competitorSaas = dbl 100, diCost = dbl 100\<rparr> = dbl 0"
  by (simp only: diProcessingCost_def inputs.select_convs ex100_feesWithSurcharging step_22 step_23 step_24 step_4 step_5 step_6 step_25 step_26 step_27 step_28 step_29 step_30)

lemma ex100_diTotalCost: "diTotalCost
     \<lparr>monthlyVolume = dbl 10000, creditCardPercentage = dbl 100,
       competitorRate = dbl 3, competitorSaas = dbl 100, diCost = dbl 100\<rparr> = dbl 100"
  by (simp only: diTotalCost_def inputs.select_convs ex100_diProcessingCost step_22 step_23 step_24 step_4 step_5 step_6 step_25 step_26 step_27 step_28 step_29 step_30)

lemma ex100_monthlySavings: "monthlySavings
     \<lparr>monthlyVolume = dbl 10000, creditCardPercentage = dbl 100,
       competitorRate = dbl 3, competitorSaas = dbl 100, diCost = dbl 100\<rparr> = dbl 300"
  by (simp only: monthlySavings_def inputs.select_convs ex100_competitorTotalCost ex100_diTotalCost step_22 step_23 step_24 step_4 step_5 step_6 step_25 step_26 step_27 step_28 step_29 step_30)

lemma ex100_annualSavings: "annualSavings
     \<lparr>monthlyVolume = dbl 10000, creditCardPercentage = dbl 100,
       competitorRate = dbl 3, competitorSaas = dbl 100, diCost = dbl 100\<rparr> = dbl 3600"
  by (simp only: annualSavings_def inputs.select_convs ex100_monthlySavings step_22 step_23 step_24 step_4 step_5 step_6 step_25 step_26 step_27 step_28 step_29 step_30)

lemma ex100_core: "calculateROI_core
     \<lparr>monthlyVolume = dbl 10000, creditCardPercentage = dbl 100,
       competitorRate = dbl 3, competitorSaas = dbl 100, diCost = dbl 100\<rparr> =
     Inr \<lparr>data_competitorSaas = dbl 100, data_competitorProcessing = dbl 300,
          data_competitorTotal = dbl 400, data_diSaas = dbl 100,
          data_diProcessing = dbl 0, data_diTotal = dbl 100,
          data_monthlySavings = dbl 300, data_annualSavings = dbl 3600\<rparr>"
  by (simp only: calculateROI_core_def inputs.select_convs cmp_16 if_False ex100_competitorProcessingCost ex100_competitorTotalCost ex100_diProcessingCost ex100_diTotalCost ex100_monthlySavings ex100_annualSavings)

lemma round_31: "rnd (150 / 100) = 3 / 2"
  by (rule rnd_cert [where m = 6755399441055744 and k = "- 52"]) simp_all

lemma lit_1_5: "rnd 1.5 = 3 / 2"
  by (rule rnd_cert [where m = 6755399441055744 and k = "- 52"]) simp_all

lemma step_31: "fdiv (dbl 150) (dbl 100) = dbl 1.5"
  by (simp only: double_eq_iff fdiv_rep dbl_rep lit_100 lit_150 lit_1_5 rnd_minus round_31)

lemma round_32: "rnd (10000 * (3 / 2)) = 15000"
  by (rule rnd_cert [where m = 8246337208320000 and k = "- 39"]) simp_all

lemma lit_15000: "rnd 15000 = 15000"
  by (rule rnd_cert [where m = 8246337208320000 and k = "- 39"]) simp_all

lemma step_32: "fmul (dbl 10000) (dbl 1.5) = dbl 15000"
  by (simp only: double_eq_iff fmul_rep dbl_rep lit_10000 lit_15000 lit_1_5 rnd_minus round_32)

lemma round_33: "rnd (10000 - 15000) = - 5000"
  by (rule rnd_cert_neg [where m = 5497558138880000 and k = "- 40"]) simp_all

lemma step_33: "fsub (dbl 10000) (dbl 15000) = dbl (- 5000)"
  by (simp only: double_eq_iff fsub_rep dbl_rep lit_10000 lit_15000 lit_5000 rnd_minus round_33)

lemma round_34: "rnd (15000 * (1080863910568919 / 36028797018963968)) = 450"
  by (rule rnd_cert [where m = 7916483719987200 and k = "- 44"]) simp_all

lemma lit_450: "rnd 450 = 450"
  by (rule rnd_cert [where m = 7916483719987200 and k = "- 44"]) simp_all

lemma step_34: "fmul (dbl 15000) (dbl 0.03) = dbl 450"
  by (simp only: double_eq_iff fmul_rep dbl_rep lit_0_03 lit_15000 lit_450 rnd_minus round_34)

lemma round_35: "rnd (10000 + 450) = 10450"
  by (rule rnd_cert [where m = 5744948255129600 and k = "- 39"]) simp_all

lemma lit_10450: "rnd 10450 = 10450"
  by (rule rnd_cert [where m = 5744948255129600 and k = "- 39"]) simp_all

lemma step_35: "fadd (dbl 10000) (dbl 450) = dbl 10450"
  by (simp only: double_eq_iff fadd_rep dbl_rep lit_10000 lit_10450 lit_450 rnd_minus round_35)

lemma round_36: "rnd (10450 * (8396150857299363 / 288230376151711744)) = 669401370687701 / 2199023255552"
  by (rule rnd_cert [where m = 5355210965501608 and k = "- 44"]) simp_all

lemma lit_304_4085: "rnd 304.4085 = 669401370687701 / 2199023255552"
  by (rule rnd_cert [where m = 5355210965501608 and k = "- 44"]) simp_all

lemma step_36: "fmul (dbl 10450) (dbl 0.02913) = dbl 304.4085"
  by (simp only: double_eq_iff fmul_rep dbl_rep lit_0_02913 lit_10450 lit_304_4085 rnd_minus round_36)

lemma round_37: "rnd (15000 + 450) = 15450"
  by (rule rnd_cert [where m = 8493727324569600 and k = "- 39"]) simp_all

lemma lit_15450: "rnd 15450 = 15450"
  by (rule rnd_cert [where m = 8493727324569600 and k = "- 39"]) simp_all

lemma step_37: "fadd (dbl 15000) (dbl 450) = dbl 15450"
  by (simp only: double_eq_iff fadd_rep dbl_rep lit_15000 lit_15450 lit_450 rnd_minus round_37)

lemma round_38: "rnd (15450 * (8396150857299363 / 288230376151711744)) = 3958756431435399 / 8796093022208"
  by (rule rnd_cert [where m = 7917512862870798 and k = "- 44"]) simp_all

lemma lit_450_0585: "rnd 450.0585 = 3958756431435399 / 8796093022208"
  by (rule rnd_cert [where m = 7917512862870798 and k = "- 44"]) simp_all

lemma step_38: "fmul (dbl 15450) (dbl 0.02913) = dbl 450.0585"
  by (simp only: double_eq_iff fmul_rep dbl_rep lit_0_02913 lit_15450 lit_450_0585 rnd_minus round_38)

lemma round_39: "rnd ((669401370687701 / 2199023255552) - (3958756431435399 / 8796093022208)) = - (1281150948684595 / 8796093022208)"
  by (rule rnd_cert_neg [where m = 5124603794738380 and k = "- 45"]) simp_all

lemma step_39: "fsub (dbl 304.4085) (dbl 450.0585) = dbl (- 145.64999999999998)"
  by (simp only: double_eq_iff fsub_rep dbl_rep lit_145_64999999999998 lit_304_4085 lit_450_0585 rnd_minus round_39)

lemma round_40: "rnd (100 + (- (1281150948684595 / 8796093022208))) = - (401541646463795 / 8796093022208)"
  by (rule rnd_cert_neg [where m = 6424666343420720 and k = "- 47"]) simp_all

lemma lit_45_64999999999998: "rnd 45.64999999999998 = 401541646463795 / 8796093022208"
  by (rule rnd_cert [where m = 6424666343420720 and k = "- 47"]) simp_all

lemma step_40: "fadd (dbl 100) (dbl (- 145.64999999999998)) = dbl (- 45.64999999999998)"
  by (simp only: double_eq_iff fadd_rep dbl_rep lit_100 lit_145_64999999999998 lit_45_64999999999998 rnd_minus round_40)

lemma round_41: "rnd (400 - (- (401541646463795 / 8796093022208))) = 3919978855346995 / 8796093022208"
  by (rule rnd_cert [where m = 7839957710693990 and k = "- 44"]) simp_all

lemma lit_445_65: "rnd 445.65 = 3919978855346995 / 8796093022208"
  by (rule rnd_cert [where m = 7839957710693990 and k = "- 44"]) simp_all

lemma step_41: "fsub (dbl 400) (dbl (- 45.64999999999998)) = dbl 445.65"
  by (simp only: double_eq_iff fsub_rep dbl_rep lit_400 lit_445_65 lit_45_64999999999998 rnd_minus round_41)

lemma round_42: "rnd ((3919978855346995 / 8796093022208) * 12) = 1469992070755123 / 274877906944"
  by (rule rnd_cert_tie [where m = 5879968283020492 and k = "- 40"]) simp_all

lemma lit_5347_799999999999: "rnd 5347.799999999999 = 1469992070755123 / 274877906944"
  by (rule rnd_cert [where m = 5879968283020492 and k = "- 40"]) simp_all

lemma step_42: "fmul (dbl 445.65) (dbl 12) = dbl 5347.799999999999"
  by (simp only: double_eq_iff fmul_rep dbl_rep lit_12 lit_445_65 lit_5347_799999999999 rnd_minus round_42)

lemma ex150_creditCardVolume: "creditCardVolume
     \<lparr>monthlyVolume = dbl 10000, creditCardPercentage = dbl 150,
       competitorRate = dbl 3, competitorSaas = dbl 100, diCost = dbl 100\<rparr> = dbl 15000"
  by (simp only: creditCardVolume_def inputs.select_convs  step_31 step_32 step_33 step_4 step_5 step_6 step_34 step_35 step_36 step_37 step_38 step_39 step_40 step_41 step_42)

lemma ex150_debitVolume: "debitVolume
     \<lparr>monthlyVolume = dbl 10000, creditCardPercentage = dbl 150,
       competitorRate = dbl 3, competitorSaas = dbl 100, diCost = dbl 100\<rparr> = dbl (- 5000)"
  by (simp only: debitVolume_def inputs.select_convs ex150_creditCardVolume step_31 step_32 step_33 step_4 step_5 step_6 step_34 step_35 step_36 step_37 step_38 step_39 step_40 step_41 step_42)

lemma ex150_competitorRateDecimal: "competitorRateDecimal
     \<lparr>monthlyVolume = dbl 10000, creditCardPercentage = dbl 150,
       competitorRate = dbl 3, competitorSaas = dbl 100, diCost = dbl 100\<rparr> = dbl 0.03"
  by (simp only: competitorRateDecimal_def inputs.select_convs  step_31 step_32 step_33 step_4 step_5 step_6 step_34 step_35 step_36 step_37 step_38 step_39 step_40 step_41 step_42)

lemma ex150_competitorProcessingCost: "competitorProcessingCost
     \<lparr>monthlyVolume = dbl 10000, creditCardPercentage = dbl 150,
       competitorRate = dbl 3, competitorSaas = dbl 100, diCost = dbl 100\<rparr> = dbl 300"
  by (simp only: competitorProcessingCost_def inputs.select_convs ex150_competitorRateDecimal step_31 step_32 step_33 step_4 step_5 step_6 step_34 step_35 step_36 step_37 step_38 step_39 step_40 step_41 step_42)

lemma ex150_competitorTotalCost: "competitorTotalCost
     \<lparr>monthlyVolume = dbl 10000, creditCardPercentage = dbl 150,
       competitorRate = dbl 3, competitorSaas = dbl 100, diCost = dbl 100\<rparr> = dbl 400"
  by (simp only: competitorTotalCost_def inputs.select_convs ex150_competitorProcessingCost step_31 step_32 step_33 step_4 step_5 step_6 step_34 step_35 step_36 step_37 step_38 step_39 step_40 step_41 step_42)

lemma ex150_surchargeCollected: "surchargeCollected
     \<lparr>monthlyVolume = dbl 10000, creditCardPercentage = dbl 150,
       competitorRate = dbl 3, competitorSaas = dbl 100, diCost = dbl 100\<rparr> = dbl 450"
  by (simp only: surchargeCollected_def inputs.select_convs ex150_creditCardVolume step_31 step_32 step_33 step_4 step_5 step_6 step_34 step_35 step_36 step_37 step_38 step_39 step_40 step_41 step_42)

lemma ex150_feesWithSurcharging: "feesWithSurcharging
     \<lparr>monthlyVolume = dbl 10000, creditCardPercentage = dbl 150,
       competitorRate = dbl 3, competitorSaas = dbl 100, diCost = dbl 100\<rparr> = dbl (- 145.64999999999998)"
  by (simp only: feesWithSurcharging_def inputs.select_convs baseProcessingRate_def ex150_creditCardVolume ex150_surchargeCollected step_31 step_32 step_33 step_4 step_5 step_6 step_34 step_35 step_36 step_37 step_38 step_39 step_40 step_41 step_42)

lemma ex150_adjustedVolume: "adjustedVolume
     \<lparr>monthlyVolume = dbl 10000, creditCardPercentage = dbl 150,
       competitorRate = dbl 3, competitorSaas = dbl 100, diCost = dbl 100\<rparr> = dbl 10450"
  by (simp only: adjustedVolume_def inputs.select_convs ex150_surchargeCollected step_31 step_32 step_33 step_4 step_5 step_6 step_34 step_35 step_36 step_37 step_38 step_39 step_40 step_41 step_42)

lemma ex150_diProcessingCost: "diProcessingCost
     \<lparr>monthlyVolume = dbl 10000, creditCardPercentage = dbl 150,
       competitorRate = dbl 3, competitorSaas = dbl 100, diCost = dbl 100\<rparr> = dbl (- 145.64999999999998)"
  by (simp only: diProcessingCost_def inputs.select_convs ex150_feesWithSurcharging step_31 step_32 step_33 step_4 step_5 step_6 step_34 step_35 step_36 step_37 step_38 step_39 step_40 step_41 step_42)

lemma ex150_diTotalCost: "diTotalCost
     \<lparr>monthlyVolume = dbl 10000, creditCardPercentage = dbl 150,
       competitorRate = dbl 3, competitorSaas = dbl 100, diCost = dbl 100\<rparr> = dbl (- 45.64999999999998)"
  by (simp only: diTotalCost_def inputs.select_convs ex150_diProcessingCost step_31 step_32 step_33 step_4 step_5 step_6 step_34 step_35 step_36 step_37 step_38 step_39 step_40 step_41 step_42)

lemma ex150_monthlySavings: "monthlySavings
     \<lparr>monthlyVolume = dbl 10000, creditCardPercentage = dbl 150,
       competitorRate = dbl 3, competitorSaas = dbl 100, diCost = dbl 100\<rparr> = dbl 445.65"
  by (simp only: monthlySavings_def inputs.select_convs ex150_competitorTotalCost ex150_diTotalCost step_31 step_32 step_33 step_4 step_5 step_6 step_34 step_35 step_36 step_37 step_38 step_39 step_40 step_41 step_42)

lemma ex150_annualSavings: "annualSavings
     \<lparr>monthlyVolume = dbl 10000, creditCardPercentage = dbl 150,
       competitorRate = dbl 3, competitorSaas = dbl 100, diCost = dbl 100\<rparr> = dbl 5347.799999999999"
  by (simp only: annualSavings_def inputs.select_convs ex150_monthlySavings step_31 step_32 step_33 step_4 step_5 step_6 step_34 step_35 step_36 step_37 step_38 step_39 step_40 step_41 step_42)

lemma ex150_core: "calculateROI_core
     \<lparr>monthlyVolume = dbl 10000, creditCardPercentage = dbl 150,
       competitorRate = dbl 3, competitorSaas = dbl 100, diCost = dbl 100\<rparr> =
     Inr \<lparr>data_competitorSaas = dbl 100, data_competitorProcessing = dbl 300,
          data_competitorTotal = dbl 400, data_diSaas = dbl 100,
          data_diProcessing = dbl (- 145.64999999999998), data_diTotal = dbl (- 45.64999999999998),
          data_monthlySavings = dbl 445.65, data_annualSavings = dbl 5347.799999999999\<rparr>"
  by (simp only: calculateROI_core_def inputs.select_convs cmp_16 if_False ex150_competitorProcessingCost ex150_competitorTotalCost ex150_diProcessingCost ex150_diTotalCost ex150_monthlySavings ex150_annualSavings)

lemma round_43: "rnd (200 / 100) = 2"
  by (rule rnd_cert [where m = 4503599627370496 and k = "- 51"]) simp_all

lemma lit_200: "rnd 200 = 200"
  by (rule rnd_cert [where m = 7036874417766400 and k = "- 45"]) simp_all

lemma lit_2: "rnd 2 = 2"
  by (rule rnd_cert [where m = 4503599627370496 and k = "- 51"]) simp_all

lemma step_43: "fdiv (dbl 200) (dbl 100) = dbl 2"
  by (simp only: double_eq_iff fdiv_rep dbl_rep lit_100 lit_2 lit_200 rnd_minus round_43)

lemma round_44: "rnd (10000 * 2) = 20000"
  by (rule rnd_cert [where m = 5497558138880000 and k = "- 38"]) simp_all

lemma lit_20000: "rnd 20000 = 20000"
  by (rule rnd_cert [where m = 5497558138880000 and k = "- 38"]) simp_all

lemma step_44: "fmul (dbl 10000) (dbl 2) = dbl 20000"
  by (simp only: double_eq_iff fmul_rep dbl_rep lit_10000 lit_2 lit_20000 rnd_minus round_44)

lemma round_45: "rnd (10000 - 20000) = - 10000"
  by (rule rnd_cert_neg [where m = 5497558138880000 and k = "- 39"]) simp_all

lemma step_45: "fsub (dbl 10000) (dbl 20000) = dbl (- 10000)"
  by (simp only: double_eq_iff fsub_rep dbl_rep lit_10000 lit_20000 rnd_minus round_45)

lemma round_46: "rnd (20000 * (1080863910568919 / 36028797018963968)) = 600"
  by (rule rnd_cert [where m = 5277655813324800 and k = "- 43"]) simp_all

lemma lit_600: "rnd 600 = 600"
  by (rule rnd_cert [where m = 5277655813324800 and k = "- 43"]) simp_all

lemma step_46: "fmul (dbl 20000) (dbl 0.03) = dbl 600"
  by (simp only: double_eq_iff fmul_rep dbl_rep lit_0_03 lit_20000 lit_600 rnd_minus round_46)

lemma round_47: "rnd (10000 + 600) = 10600"
  by (rule rnd_cert [where m = 5827411627212800 and k = "- 39"]) simp_all

lemma lit_10600: "rnd 10600 = 10600"
  by (rule rnd_cert [where m = 5827411627212800 and k = "- 39"]) simp_all

lemma step_47: "fadd (dbl 10000) (dbl 600) = dbl 10600"
  by (simp only: double_eq_iff fadd_rep dbl_rep lit_10000 lit_10600 lit_600 rnd_minus round_47)

lemma round_48: "rnd (10600 * (8396150857299363 / 288230376151711744)) = 1358020005605671 / 4398046511104"
  by (rule rnd_cert [where m = 5432080022422684 and k = "- 44"]) simp_all

lemma lit_308_778: "rnd 308.778 = 1358020005605671 / 4398046511104"
  by (rule rnd_cert [where m = 5432080022422684 and k = "- 44"]) simp_all

lemma step_48: "fmul (dbl 10600) (dbl 0.02913) = dbl 308.778"
  by (simp only: double_eq_iff fmul_rep dbl_rep lit_0_02913 lit_10600 lit_308_778 rnd_minus round_48)

lemma round_49: "rnd (20000 + 600) = 20600"
  by (rule rnd_cert [where m = 5662484883046400 and k = "- 38"]) simp_all

lemma lit_20600: "rnd 20600 = 20600"
  by (rule rnd_cert [where m = 5662484883046400 and k = "- 38"]) simp_all

lemma step_49: "fadd (dbl 20000) (dbl 600) = dbl 20600"
  by (simp only: double_eq_iff fadd_rep dbl_rep lit_20000 lit_20600 lit_600 rnd_minus round_49)

lemma round_50: "rnd (20600 * (8396150857299363 / 288230376151711744)) = 1319585477145133 / 2199023255552"
  by (rule rnd_cert [where m = 5278341908580532 and k = "- 43"]) simp_all

lemma lit_600_078: "rnd 600.078 = 1319585477145133 / 2199023255552"
  by (rule rnd_cert [where m = 5278341908580532 and k = "- 43"]) simp_all

lemma step_50: "fmul (dbl 20600) (dbl 0.02913) = dbl 600.078"
  by (simp only: double_eq_iff fmul_rep dbl_rep lit_0_02913 lit_20600 lit_600_078 rnd_minus round_50)

lemma round_51: "rnd ((1358020005605671 / 4398046511104) - (1319585477145133 / 2199023255552)) = - (1281150948684595 / 4398046511104)"
  by (rule rnd_cert_neg [where m = 5124603794738380 and k = "- 44"]) simp_all

lemma lit_291_29999999999995: "rnd 291.29999999999995 = 1281150948684595 / 4398046511104"
  by (rule rnd_cert [where m = 5124603794738380 and k = "- 44"]) simp_all

lemma step_51: "fsub (dbl 308.778) (dbl 600.078) = dbl (- 291.29999999999995)"
  by (simp only: double_eq_iff fsub_rep dbl_rep lit_291_29999999999995 lit_308_778 lit_600_078 rnd_minus round_51)

lemma round_52: "rnd (100 + (- (1281150948684595 / 4398046511104))) = - (841346297574195 / 4398046511104)"
  by (rule rnd_cert_neg [where m = 6730770380593560 and k = "- 45"]) simp_all

lemma lit_191_29999999999995: "rnd 191.29999999999995 = 841346297574195 / 4398046511104"
  by (rule rnd_cert [where m = 6730770380593560 and k = "- 45"]) simp_all

lemma step_52: "fadd (dbl 100) (dbl (- 291.29999999999995)) = dbl (- 191.29999999999995)"
  by (simp only: double_eq_iff fadd_rep dbl_rep lit_100 lit_191_29999999999995 lit_291_29999999999995 rnd_minus round_52)

lemma round_53: "rnd (400 - (- (841346297574195 / 4398046511104))) = 2600564902015795 / 4398046511104"
  by (rule rnd_cert [where m = 5201129804031590 and k = "- 43"]) simp_all

lemma lit_591_3: "rnd 591.3 = 2600564902015795 / 4398046511104"
  by (rule rnd_cert [where m = 5201129804031590 and k = "- 43"]) simp_all

lemma step_53: "fsub (dbl 400) (dbl (- 191.29999999999995)) = dbl 591.3"
  by (simp only: double_eq_iff fsub_rep dbl_rep lit_191_29999999999995 lit_400 lit_591_3 rnd_minus round_53)

lemma round_54: "rnd ((2600564902015795 / 4398046511104) * 12) = 7801694706047385 / 1099511627776"
  by (rule rnd_cert [where m = 7801694706047385 and k = "- 40"]) simp_all

lemma lit_7095_599999999999: "rnd 7095.599999999999 = 7801694706047385 / 1099511627776"
  by (rule rnd_cert [where m = 7801694706047385 and k = "- 40"]) simp_all

lemma step_54: "fmul (dbl 591.3) (dbl 12) = dbl 7095.599999999999"
  by (simp only: double_eq_iff fmul_rep dbl_rep lit_12 lit_591_3 lit_7095_599999999999 rnd_minus round_54)

lemma ex200_creditCardVolume: "creditCardVolume
     \<lparr>monthlyVolume = dbl 10000, creditCardPercentage = dbl 200,
       competitorRate = dbl 3, competitorSaas = dbl 100, diCost = dbl 100\<rparr> = dbl 20000"
  by (simp only: creditCardVolume_def inputs.select_convs  step_43 step_44 step_45 step_4 step_5 step_6 step_46 step_47 step_48 step_49 step_50 step_51 step_52 step_53 step_54)

lemma ex200_debitVolume: "debitVolume
     \<lparr>monthlyVolume = dbl 10000, creditCardPercentage = dbl 200,
       competitorRate = dbl 3, competitorSaas = dbl 100, diCost = dbl 100\<rparr> = dbl (- 10000)"
  by (simp only: debitVolume_def inputs.select_convs ex200_creditCardVolume step_43 step_44 step_45 step_4 step_5 step_6 step_46 step_47 step_48 step_49 step_50 step_51 step_52 step_53 step_54)




lemma ex200_surchargeCollected: "surchargeCollected
     \<lparr>monthlyVolume = dbl 10000, creditCardPercentage = dbl 200,
       competitorRate = dbl 3, competitorSaas = dbl 100, diCost = dbl 100\<rparr> = dbl 600"
  by (simp only: surchargeCollected_def inputs.select_convs ex200_creditCardVolume step_43 step_44 step_45 step_4 step_5 step_6 step_46 step_47 step_48 step_49 step_50 step_51 step_52 step_53 step_54)


lemma ex200_adjustedVolume: "adjustedVolume
     \<lparr>monthlyVolume = dbl 10000, creditCardPercentage = dbl 200,
       competitorRate = dbl 3, competitorSaas = dbl 100, diCost = dbl 100\<rparr> = dbl 10600"
  by (simp only: adjustedVolume_def inputs.select_convs ex200_surchargeCollected step_43 step_44 step_45 step_4 step_5 step_6 step_46 step_47 step_48 step_49 step_50 step_51 step_52 step_53 step_54)























lemma round_58: "rnd ((- (7330077518506667 / 2199023255552)) / 100) = - (4691249611844267 / 140737488355328)"
  by (rule rnd_cert_neg [where m = 4691249611844267 and k = "- 47"]) simp_all

lemma lit_3333_3333333333335: "rnd 3333.3333333333335 = 7330077518506667 / 2199023255552"
  by (rule rnd_cert [where m = 7330077518506667 and k = "- 41"]) simp_all

lemma lit_33_333333333333336: "rnd 33.333333333333336 = 4691249611844267 / 140737488355328"
  by (rule rnd_cert [where m = 4691249611844267 and k = "- 47"]) simp_all

lemma step_58: "fdiv (dbl (- 3333.3333333333335)) (dbl 100) = dbl (- 33.333333333333336)"
  by (simp only: double_eq_iff fdiv_rep dbl_rep lit_100 lit_3333_3333333333335 lit_33_333333333333336 rnd_minus round_58)

lemma round_59: "rnd (3 * (- (4691249611844267 / 140737488355328))) = - 100"
  by (rule rnd_cert_neg_tie [where m = 7036874417766400 and k = "- 46"]) simp_all

lemma step_59: "fmul (dbl 3) (dbl (- 33.333333333333336)) = dbl (- 100)"
  by (simp only: double_eq_iff fmul_rep dbl_rep lit_100 lit_3 lit_33_333333333333336 rnd_minus round_59)

lemma round_60: "rnd (3 - (- 100)) = 103"
  by (rule rnd_cert [where m = 7247980650299392 and k = "- 46"]) simp_all

lemma lit_103: "rnd 103 = 103"
  by (rule rnd_cert [where m = 7247980650299392 and k = "- 46"]) simp_all

lemma step_60: "fsub (dbl 3) (dbl (- 100)) = dbl 103"
  by (simp only: double_eq_iff fsub_rep dbl_rep lit_100 lit_103 lit_3 rnd_minus round_60)

lemma round_61: "rnd (3 * (1080863910568919 / 36028797018963968)) = 3242591731706757 / 36028797018963968"
  by (rule rnd_cert [where m = 6485183463413514 and k = "- 56"]) simp_all

lemma lit_0_09: "rnd 0.09 = 3242591731706757 / 36028797018963968"
  by (rule rnd_cert [where m = 6485183463413514 and k = "- 56"]) simp_all

lemma step_61: "fmul (dbl 3) (dbl 0.03) = dbl 0.09"
  by (simp only: double_eq_iff fmul_rep dbl_rep lit_0_03 lit_0_09 lit_3 rnd_minus round_61)

lemma round_62: "rnd (100 + (3242591731706757 / 36028797018963968)) = 3521603802371195 / 35184372088832"
  by (rule rnd_cert [where m = 7043207604742390 and k = "- 46"]) simp_all

lemma lit_100_09: "rnd 100.09 = 3521603802371195 / 35184372088832"
  by (rule rnd_cert [where m = 7043207604742390 and k = "- 46"]) simp_all

lemma step_62: "fadd (dbl 100) (dbl 0.09) = dbl 100.09"
  by (simp only: double_eq_iff fadd_rep dbl_rep lit_0_09 lit_100 lit_100_09 rnd_minus round_62)

lemma round_63: "rnd ((- 100) * (1080863910568919 / 36028797018963968)) = - 3"
  by (rule rnd_cert_neg [where m = 6755399441055744 and k = "- 51"]) simp_all

lemma step_63: "fmul (dbl (- 100)) (dbl 0.03) = dbl (- 3)"
  by (simp only: double_eq_iff fmul_rep dbl_rep lit_0_03 lit_100 lit_3 rnd_minus round_63)

lemma round_64: "rnd (3 + (- 3)) = 0"
  by (simp add: rnd_0)

lemma step_64: "fadd (dbl 3) (dbl (- 3)) = dbl 0"
  by (simp only: double_eq_iff fadd_rep dbl_rep lit_3 rnd_0 rnd_minus round_64)

lemma round_65: "rnd (0 * (8396150857299363 / 288230376151711744)) = 0"
  by (simp add: rnd_0)

lemma step_65: "fmul (dbl 0) (dbl 0.02913) = dbl 0"
  by (simp only: double_eq_iff fmul_rep dbl_rep lit_0_02913 rnd_0 rnd_minus round_65)

lemma round_66: "rnd ((- 100) + (- 3)) = - 103"
  by (rule rnd_cert_neg [where m = 7247980650299392 and k = "- 46"]) simp_all

lemma step_66: "fadd (dbl (- 100)) (dbl (- 3)) = dbl (- 103)"
  by (simp only: double_eq_iff fadd_rep dbl_rep lit_100 lit_103 lit_3 rnd_minus round_66)

lemma round_67: "rnd ((- 103) * (8396150857299363 / 288230376151711744)) = - (6756277642983081 / 2251799813685248)"
  by (rule rnd_cert_neg [where m = 6756277642983081 and k = "- 51"]) simp_all

lemma lit_3_00039: "rnd 3.00039 = 6756277642983081 / 2251799813685248"
  by (rule rnd_cert [where m = 6756277642983081 and k = "- 51"]) simp_all

lemma step_67: "fmul (dbl (- 103)) (dbl 0.02913) = dbl (- 3.00039)"
  by (simp only: double_eq_iff fmul_rep dbl_rep lit_0_02913 lit_103 lit_3_00039 rnd_minus round_67)

lemma round_68: "rnd (0 - (- (6756277642983081 / 2251799813685248))) = 6756277642983081 / 2251799813685248"
  by (rule rnd_cert [where m = 6756277642983081 and k = "- 51"]) simp_all

lemma step_68: "fsub (dbl 0) (dbl (- 3.00039)) = dbl 3.00039"
  by (simp only: double_eq_iff fsub_rep dbl_rep lit_3_00039 rnd_0 rnd_minus round_68)

lemma round_69: "rnd (100 + (6756277642983081 / 2251799813685248)) = 7248008094109621 / 70368744177664"
  by (rule rnd_cert [where m = 7248008094109621 and k = "- 46"]) simp_all

lemma lit_103_00039: "rnd 103.00039 = 7248008094109621 / 70368744177664"
  by (rule rnd_cert [where m = 7248008094109621 and k = "- 46"]) simp_all

lemma step_69: "fadd (dbl 100) (dbl 3.00039) = dbl 103.00039"
  by (simp only: double_eq_iff fadd_rep dbl_rep lit_100 lit_103_00039 lit_3_00039 rnd_minus round_69)

lemma round_70: "rnd ((3521603802371195 / 35184372088832) - (7248008094109621 / 70368744177664)) = - (204800489367231 / 70368744177664)"
  by (rule rnd_cert_neg [where m = 6553615659751392 and k = "- 51"]) simp_all

lemma lit_2_9103899999999925: "rnd 2.9103899999999925 = 204800489367231 / 70368744177664"
  by (rule rnd_cert [where m = 6553615659751392 and k = "- 51"]) simp_all

lemma step_70: "fsub (dbl 100.09) (dbl 103.00039) = dbl (- 2.9103899999999925)"
  by (simp only: double_eq_iff fsub_rep dbl_rep lit_100_09 lit_103_00039 lit_2_9103899999999925 rnd_minus round_70)

lemma round_71: "rnd ((- (204800489367231 / 70368744177664)) * 12) = - (614401468101693 / 17592186044416)"
  by (rule rnd_cert_neg [where m = 4915211744813544 and k = "- 47"]) simp_all

lemma lit_34_92467999999991: "rnd 34.92467999999991 = 614401468101693 / 17592186044416"
  by (rule rnd_cert [where m = 4915211744813544 and k = "- 47"]) simp_all

lemma step_71: "fmul (dbl (- 2.9103899999999925)) (dbl 12) = dbl (- 34.92467999999991)"
  by (simp only: double_eq_iff fmul_rep dbl_rep lit_12 lit_2_9103899999999925 lit_34_92467999999991 rnd_minus round_71)

lemma zero_creditCardVolume: "creditCardVolume
     \<lparr>monthlyVolume = dbl 3, creditCardPercentage = dbl (- 3333.3333333333335),
       competitorRate = dbl 3, competitorSaas = dbl 100, diCost = dbl 100\<rparr> = dbl (- 100)"
  by (simp only: creditCardVolume_def inputs.select_convs  step_58 step_59 step_60 step_4 step_61 step_62 step_63 step_64 step_65 step_66 step_67 step_68 step_69 step_70 step_71)

lemma zero_debitVolume: "debitVolume
     \<lparr>monthlyVolume = dbl 3, creditCardPercentage = dbl (- 3333.3333333333335),
       competitorRate = dbl 3, competitorSaas = dbl 100, diCost = dbl 100\<rparr> = dbl 103"
  by (simp only: debitVolume_def inputs.select_convs zero_creditCardVolume step_58 step_59 step_60 step_4 step_61 step_62 step_63 step_64 step_65 step_66 step_67 step_68 step_69 step_70 step_71)

lemma zero_competitorRateDecimal: "competitorRateDecimal
     \<lparr>monthlyVolume = dbl 3, creditCardPercentage = dbl (- 3333.3333333333335),
       competitorRate = dbl 3, competitorSaas = dbl 100, diCost = dbl 100\<rparr> = dbl 0.03"
  by (simp only: competitorRateDecimal_def inputs.select_convs  step_58 step_59 step_60 step_4 step_61 step_62 step_63 step_64 step_65 step_66 step_67 step_68 step_69 step_70 step_71)

lemma zero_competitorProcessingCost: "competitorProcessingCost
     \<lparr>monthlyVolume = dbl 3, creditCardPercentage = dbl (- 3333.3333333333335),
       competitorRate = dbl 3, competitorSaas = dbl 100, diCost = dbl 100\<rparr> = dbl 0.09"
  by (simp only: competitorProcessingCost_def inputs.select_convs zero_competitorRateDecimal step_58 step_59 step_60 step_4 step_61 step_62 step_63 step_64 step_65 step_66 step_67 step_68 step_69 step_70 step_71)

lemma zero_competitorTotalCost: "competitorTotalCost
     \<lparr>monthlyVolume = dbl 3, creditCardPercentage = dbl (- 3333.3333333333335),
       competitorRate = dbl 3, competitorSaas = dbl 100, diCost = dbl 100\<rparr> = dbl 100.09"
  by (simp only: competitorTotalCost_def inputs.select_convs zero_competitorProcessingCost step_58 step_59 step_60 step_4 step_61 step_62 step_63 step_64 step_65 step_66 step_67 step_68 step_69 step_70 step_71)

lemma zero_surchargeCollected: "surchargeCollected
     \<lparr>monthlyVolume = dbl 3, creditCardPercentage = dbl (- 3333.3333333333335),
       competitorRate = dbl 3, competitorSaas = dbl 100, diCost = dbl 100\<rparr> = dbl (- 3)"
  by (simp only: surchargeCollected_def inputs.select_convs zero_creditCardVolume step_58 step_59 step_60 step_4 step_61 step_62 step_63 step_64 step_65 step_66 step_67 step_68 step_69 step_70 step_71)

lemma zero_feesWithSurcharging: "feesWithSurcharging
     \<lparr>monthlyVolume = dbl 3, creditCardPercentage = dbl (- 3333.3333333333335),
       competitorRate = dbl 3, competitorSaas = dbl 100, diCost = dbl 100\<rparr> = dbl 3.00039"
  by (simp only: feesWithSurcharging_def inputs.select_convs baseProcessingRate_def zero_creditCardVolume zero_surchargeCollected step_58 step_59 step_60 step_4 step_61 step_62 step_63 step_64 step_65 step_66 step_67 step_68 step_69 step_70 step_71)

lemma zero_adjustedVolume: "adjustedVolume
     \<lparr>monthlyVolume = dbl 3, creditCardPercentage = dbl (- 3333.3333333333335),
       competitorRate = dbl 3, competitorSaas = dbl 100, diCost = dbl 100\<rparr> = dbl 0"
  by (simp only: adjustedVolume_def inputs.select_convs zero_surchargeCollected step_58 step_59 step_60 step_4 step_61 step_62 step_63 step_64 step_65 step_66 step_67 step_68 step_69 step_70 step_71)

lemma zero_diProcessingCost: "diProcessingCost
     \<lparr>monthlyVolume = dbl 3, creditCardPercentage = dbl (- 3333.3333333333335),
       competitorRate = dbl 3, competitorSaas = dbl 100, diCost = dbl 100\<rparr> = dbl 3.00039"
  by (simp only: diProcessingCost_def inputs.select_convs zero_feesWithSurcharging step_58 step_59 step_60 step_4 step_61 step_62 step_63 step_64 step_65 step_66 step_67 step_68 step_69 step_70 step_71)

lemma zero_diTotalCost: "diTotalCost
     \<lparr>monthlyVolume = dbl 3, creditCardPercentage = dbl (- 3333.3333333333335),
       competitorRate = dbl 3, competitorSaas = dbl 100, diCost = dbl 100\<rparr> = dbl 103.00039"
  by (simp only: diTotalCost_def inputs.select_convs zero_diProcessingCost step_58 step_59 step_60 step_4 step_61 step_62 step_63 step_64 step_65 step_66 step_67 step_68 step_69 step_70 step_71)

lemma zero_monthlySavings: "monthlySavings
     \<lparr>monthlyVolume = dbl 3, creditCardPercentage = dbl (- 3333.3333333333335),
       competitorRate = dbl 3, competitorSaas = dbl 100, diCost = dbl 100\<rparr> = dbl (- 2.9103899999999925)"
  by (simp only: monthlySavings_def inputs.select_convs zero_competitorTotalCost zero_diTotalCost step_58 step_59 step_60 step_4 step_61 step_62 step_63 step_64 step_65 step_66 step_67 step_68 step_69 step_70 step_71)

lemma zero_annualSavings: "annualSavings
     \<lparr>monthlyVolume = dbl 3, creditCardPercentage = dbl (- 3333.3333333333335),
       competitorRate = dbl 3, competitorSaas = dbl 100, diCost = dbl 100\<rparr> = dbl (- 34.92467999999991)"
  by (simp only: annualSavings_def inputs.select_convs zero_monthlySavings step_58 step_59 step_60 step_4 step_61 step_62 step_63 step_64 step_65 step_66 step_67 step_68 step_69 step_70 step_71)

lemma cmp_72: "\<not> dbl 3 \<le> dbl 0"
  by (simp only: less_eq_double_def less_double_def dbl_rep lit_3 rnd_0 rnd_minus)

lemma zero_core: "calculateROI_core
     \<lparr>monthlyVolume = dbl 3, creditCardPercentage = dbl (- 3333.3333333333335),
       competitorRate = dbl 3, competitorSaas = dbl 100, diCost = dbl 100\<rparr> =
     Inr \<lparr>data_competitorSaas = dbl 100, data_competitorProcessing = dbl 0.09,
          data_competitorTotal = dbl 100.09, data_diSaas = dbl 100,
          data_diProcessing = dbl 3.00039, data_diTotal = dbl 103.00039,
          data_monthlySavings = dbl (- 2.9103899999999925), data_annualSavings = dbl (- 34.92467999999991)\<rparr>"
  by (simp only: calculateROI_core_def inputs.select_convs cmp_72 if_False zero_competitorProcessingCost zero_competitorTotalCost zero_diProcessingCost zero_diTotalCost zero_monthlySavings zero_annualSavings)

lemma round_73: "rnd ((1281150948684595 / 8796093022208) / 10150) = 4136034905073577 / 288230376151711744"
  by (rule rnd_cert [where m = 8272069810147154 and k = "- 59"]) simp_all

lemma lit_0_014349753694581278: "rnd 0.014349753694581278 = 4136034905073577 / 288230376151711744"
  by (rule rnd_cert [where m = 8272069810147154 and k = "- 59"]) simp_all

lemma step_73: "fdiv (dbl 145.64999999999998) (dbl 10150) = dbl 0.014349753694581278"
  by (simp only: double_eq_iff fdiv_rep dbl_rep lit_0_014349753694581278 lit_10150 lit_145_64999999999998 rnd_minus round_73)

lemma round_74: "rnd (5000 * (8396150857299363 / 288230376151711744)) = 5124603794738381 / 35184372088832"
  by (rule rnd_cert [where m = 5124603794738381 and k = "- 45"]) simp_all

lemma lit_145_65: "rnd 145.65 = 5124603794738381 / 35184372088832"
  by (rule rnd_cert [where m = 5124603794738381 and k = "- 45"]) simp_all

lemma step_74: "fmul (dbl 5000) (dbl 0.02913) = dbl 145.65"
  by (simp only: double_eq_iff fmul_rep dbl_rep lit_0_02913 lit_145_65 lit_5000 rnd_minus round_74)

lemmas ex50_quotient = step_73

lemmas ex50_debit_base = step_74

lemmas ex50_half = step_1


lemma lit_245_65: "rnd 245.65 = 8643041003621581 / 35184372088832"
  by (rule rnd_cert [where m = 8643041003621581 and k = "- 45"]) simp_all

lemma lit_154_35: "rnd 154.35 = 5430707831911219 / 35184372088832"
  by (rule rnd_cert [where m = 5430707831911219 and k = "- 45"]) simp_all

lemma lit_1852_2: "rnd 1852.2 = 8146061747866829 / 4398046511104"
  by (rule rnd_cert [where m = 8146061747866829 and k = "- 42"]) simp_all

section \<open>Basic facts\<close>

lemmas shared_defs =
  creditCardVolume_def debitVolume_def competitorRateDecimal_def
  competitorProcessingCost_def competitorTotalCost_def

lemmas formula_defs =
  baseProcessingRate_def surchargeCollected_def feesWithSurcharging_def
  adjustedVolume_def diProcessingCost_def diTotalCost_def monthlySavings_def
  annualSavings_def

lemmas flat_defs =
  DI_SURCHARGE_RATE_def DI_SURCHARGE_RATE_DECIMAL_def diProcessingCost_flat_def
  diTotalCost_flat_def monthlySavings_flat_def annualSavings_flat_def

lemma rnd_1: "rnd 1 = 1"
  using rnd_two_powi [of 0] by simp

lemma rat_of_dbl_0: "rat_of (dbl 0) = 0"
  by (simp add: dbl_rep rnd_0)

lemma rnd_100_pos: "0 < rnd 100"
  by (rule rnd_pos) simp

lemma dbl_100_not_0: "dbl 100 \<noteq> dbl 0"
proof
  assume "dbl 100 = dbl 0"
  then have "rat_of (dbl 100) = rat_of (dbl 0)" by simp
  then show False
    using rnd_100_pos by (simp add: dbl_rep rnd_0)
qed

text \<open>A positive volume passes the validation, in both files.\<close>

lemma calculateROI_core_Inr:
  "dbl 0 < monthlyVolume i \<Longrightarrow>
   calculateROI_core i =
     Inr \<lparr>data_competitorSaas = competitorSaas i,
          data_competitorProcessing = competitorProcessingCost i,
          data_competitorTotal = competitorTotalCost i,
          data_diSaas = diCost i,
          data_diProcessing = diProcessingCost i,
          data_diTotal = diTotalCost i,
          data_monthlySavings = monthlySavings i,
          data_annualSavings = annualSavings i\<rparr>"
  by (simp add: calculateROI_core_def not_le)

lemma calculateROI_core_flat_Inr:
  "dbl 0 < monthlyVolume i \<Longrightarrow>
   calculateROI_core_flat i =
     Inr \<lparr>data_competitorSaas = competitorSaas i,
          data_competitorProcessing = competitorProcessingCost i,
          data_competitorTotal = competitorTotalCost i,
          data_diSaas = diCost i,
          data_diProcessing = diProcessingCost_flat i,
          data_diTotal = diTotalCost_flat i,
          data_monthlySavings = monthlySavings_flat i,
          data_annualSavings = annualSavings_flat i\<rparr>"
  by (simp add: calculateROI_core_flat_def not_le)

text \<open>
  The credit card volume of a volume that is not negative: not negative when the
  percentage is not negative, at most the volume when the percentage is at most 100.
\<close>

lemma creditCardVolume_nonneg:
  assumes "dbl 0 \<le> monthlyVolume i" and "dbl 0 \<le> creditCardPercentage i"
  shows "dbl 0 \<le> creditCardVolume i"
proof -
  have "0 \<le> rat_of (creditCardPercentage i) / rnd 100"
    using assms(2) rnd_100_pos by (simp add: double_rep rnd_0)
  then have "0 \<le> rnd (rat_of (creditCardPercentage i) / rnd 100)"
    by (rule rnd_nonneg)
  then have "0 \<le> rat_of (monthlyVolume i) * rnd (rat_of (creditCardPercentage i) / rnd 100)"
    using assms(1) by (simp add: double_rep rnd_0)
  then show ?thesis
    by (simp add: creditCardVolume_def double_rep rnd_0 rnd_nonneg)
qed

lemma creditCardVolume_le:
  assumes "dbl 0 \<le> monthlyVolume i" and "creditCardPercentage i \<le> dbl 100"
  shows "creditCardVolume i \<le> monthlyVolume i"
proof -
  let ?m = "rat_of (monthlyVolume i)"
  have m: "0 \<le> ?m"
    using assms(1) by (simp add: double_rep rnd_0)
  have "rat_of (creditCardPercentage i) / rnd 100 \<le> 1"
    using assms(2) rnd_100_pos by (simp add: double_rep)
  then have "rnd (rat_of (creditCardPercentage i) / rnd 100) \<le> rnd 1"
    by (rule rnd_mono)
  then have "?m * rnd (rat_of (creditCardPercentage i) / rnd 100) \<le> ?m * 1"
    using m by (intro mult_left_mono) (simp_all add: rnd_1)
  then have "rnd (?m * rnd (rat_of (creditCardPercentage i) / rnd 100)) \<le> rnd ?m"
    using rnd_mono by simp
  then show ?thesis
    by (simp add: creditCardVolume_def double_rep rnd_rat_of)
qed

lemma baseProcessingRate_nonneg: "0 \<le> rat_of baseProcessingRate"
  by (simp add: baseProcessingRate_def dbl_rep rnd_nonneg)

lemma feesWithSurcharging_nonneg:
  assumes "dbl 0 \<le> monthlyVolume i" and "creditCardPercentage i \<le> dbl 100"
  shows "dbl 0 \<le> feesWithSurcharging i"
proof -
  let ?s = "rat_of (surchargeCollected i)"
  let ?r = "rat_of baseProcessingRate"
  have "rat_of (creditCardVolume i) \<le> rat_of (monthlyVolume i)"
    using creditCardVolume_le [OF assms] by (simp add: double_rep)
  then have "rat_of (creditCardVolume i) + ?s \<le> rat_of (monthlyVolume i) + ?s"
    by simp
  then have "rnd (rat_of (creditCardVolume i) + ?s) \<le> rnd (rat_of (monthlyVolume i) + ?s)"
    by (rule rnd_mono)
  then have "rnd (rat_of (creditCardVolume i) + ?s) * ?r
      \<le> rnd (rat_of (monthlyVolume i) + ?s) * ?r"
    using baseProcessingRate_nonneg by (rule mult_right_mono)
  then have "rnd (rnd (rat_of (creditCardVolume i) + ?s) * ?r)
      \<le> rnd (rnd (rat_of (monthlyVolume i) + ?s) * ?r)"
    by (rule rnd_mono)
  then have "0 \<le> rnd (rnd (rnd (rat_of (monthlyVolume i) + ?s) * ?r)
      - rnd (rnd (rat_of (creditCardVolume i) + ?s) * ?r))"
    by (intro rnd_nonneg) simp
  then show ?thesis
    by (simp add: feesWithSurcharging_def double_rep rnd_0)
qed

lemma competitorTotalCost_nonneg:
  assumes "dbl 0 \<le> monthlyVolume i" and "dbl 0 \<le> competitorRate i"
    and "dbl 0 \<le> competitorSaas i"
  shows "dbl 0 \<le> competitorTotalCost i"
proof -
  have "0 \<le> rat_of (competitorRate i) / rnd 100"
    using assms(2) rnd_100_pos by (simp add: double_rep rnd_0)
  then have "0 \<le> rnd (rat_of (competitorRate i) / rnd 100)"
    by (rule rnd_nonneg)
  then have "0 \<le> rat_of (monthlyVolume i) * rnd (rat_of (competitorRate i) / rnd 100)"
    using assms(1) by (simp add: double_rep rnd_0)
  then have "0 \<le> rnd (rat_of (monthlyVolume i) * rnd (rat_of (competitorRate i) / rnd 100))"
    by (rule rnd_nonneg)
  then have "0 \<le> rat_of (competitorSaas i)
      + rnd (rat_of (monthlyVolume i) * rnd (rat_of (competitorRate i) / rnd 100))"
    using assms(3) by (simp add: double_rep rnd_0)
  then show ?thesis
    by (simp add: competitorTotalCost_def competitorProcessingCost_def
        competitorRateDecimal_def double_rep rnd_0 rnd_nonneg)
qed

lemma diTotalCost_flat_nonneg:
  assumes "dbl 0 \<le> monthlyVolume i" and "dbl 0 \<le> diCost i"
  shows "dbl 0 \<le> diTotalCost_flat i"
proof -
  have "0 \<le> rnd (rnd 1.39 / rnd 100)"
    using rnd_100_pos by (intro rnd_nonneg divide_nonneg_nonneg) simp_all
  then have "0 \<le> rat_of (monthlyVolume i) * rnd (rnd 1.39 / rnd 100)"
    using assms(1) by (simp add: double_rep rnd_0)
  then have "0 \<le> rnd (rat_of (monthlyVolume i) * rnd (rnd 1.39 / rnd 100))"
    by (rule rnd_nonneg)
  then have "0 \<le> rat_of (diCost i) + rnd (rat_of (monthlyVolume i) * rnd (rnd 1.39 / rnd 100))"
    using assms(2) by (simp add: double_rep rnd_0)
  then show ?thesis
    by (simp add: flat_defs double_rep rnd_0 rnd_nonneg)
qed



lemma dbl_mono: "x \<le> y \<Longrightarrow> dbl x \<le> dbl y"
  by (simp add: double_rep rnd_mono)

lemma dbl_pos: "0 < x \<Longrightarrow> dbl 0 < dbl x"
  by (simp add: double_rep rnd_0 rnd_pos)

lemma dbl_nonneg: "0 \<le> x \<Longrightarrow> dbl 0 \<le> dbl x"
  by (simp add: double_rep rnd_0 rnd_nonneg)

lemma fabs_100: "fabs (dbl 100) = dbl 100"
  using rnd_100_pos by (simp add: double_eq_iff fabs_rep dbl_rep)

lemma fdiv_self_100: "fdiv (dbl 100) (dbl 100) = dbl 1"
  using rnd_100_pos by (simp add: double_eq_iff double_rep)

lemma fmul_1: "fmul a (dbl 1) = a"
  by (simp add: double_eq_iff double_rep rnd_1 rnd_rat_of)

lemma fsub_self: "fsub a a = dbl 0"
  by (simp add: double_eq_iff double_rep)

text \<open>
  The error of the surcharge formula against the rate on the difference of the two
  volumes: five roundings, each of a relative error of at most \<open>2\<^sup>-\<^sup>5\<^sup>3\<close>.
\<close>

lemma rnd_abs_le: "\<bar>rnd x\<bar> \<le> 2 * \<bar>x\<bar>"
proof -
  have "\<bar>rnd x - x\<bar> \<le> \<bar>x\<bar> / 2 ^ 53"
    by (rule rnd_error)
  also have "\<dots> \<le> \<bar>x\<bar>"
    by (simp add: field_simps)
  finally show ?thesis by linarith
qed

lemma fees_error:
  fixes R M S C :: rat
  assumes "0 \<le> R"
  shows "\<bar>rnd (rnd (rnd (M + S) * R) - rnd (rnd (C + S) * R)) - (M - C) * R\<bar>
    \<le> (\<bar>M + S\<bar> + \<bar>C + S\<bar>) * R / 2 ^ 50"
proof -
  define A where "A = rnd (M + S)"
  define B where "B = rnd (C + S)"
  define P where "P = rnd (A * R)"
  define Q where "Q = rnd (B * R)"
  define F where "F = rnd (P - Q)"
  define X where "X = \<bar>M + S\<bar> * R"
  define Y where "Y = \<bar>C + S\<bar> * R"
  have X: "0 \<le> X" and Y: "0 \<le> Y"
    using assms by (simp_all add: X_def Y_def)
  have a: "\<bar>(A - (M + S)) * R\<bar> \<le> X / 2 ^ 53"
  proof -
    have "\<bar>A - (M + S)\<bar> * R \<le> (\<bar>M + S\<bar> / 2 ^ 53) * R"
      using rnd_error [of "M + S"] assms unfolding A_def by (rule mult_right_mono)
    then show ?thesis
      using assms by (simp add: abs_mult X_def)
  qed
  have b: "\<bar>(B - (C + S)) * R\<bar> \<le> Y / 2 ^ 53"
  proof -
    have "\<bar>B - (C + S)\<bar> * R \<le> (\<bar>C + S\<bar> / 2 ^ 53) * R"
      using rnd_error [of "C + S"] assms unfolding B_def by (rule mult_right_mono)
    then show ?thesis
      using assms by (simp add: abs_mult Y_def)
  qed
  have AR: "\<bar>A * R\<bar> \<le> 2 * X"
  proof -
    have "\<bar>A\<bar> * R \<le> (2 * \<bar>M + S\<bar>) * R"
      using rnd_abs_le [of "M + S"] assms unfolding A_def by (rule mult_right_mono)
    then show ?thesis
      using assms by (simp add: abs_mult X_def mult.assoc)
  qed
  have BR: "\<bar>B * R\<bar> \<le> 2 * Y"
  proof -
    have "\<bar>B\<bar> * R \<le> (2 * \<bar>C + S\<bar>) * R"
      using rnd_abs_le [of "C + S"] assms unfolding B_def by (rule mult_right_mono)
    then show ?thesis
      using assms by (simp add: abs_mult Y_def mult.assoc)
  qed
  have p: "\<bar>P - A * R\<bar> \<le> 2 * X / 2 ^ 53"
    using rnd_error [of "A * R"] AR unfolding P_def by simp
  have q: "\<bar>Q - B * R\<bar> \<le> 2 * Y / 2 ^ 53"
    using rnd_error [of "B * R"] BR unfolding Q_def by simp
  have P4: "\<bar>P\<bar> \<le> 4 * X"
    using rnd_abs_le [of "A * R"] AR unfolding P_def by linarith
  have Q4: "\<bar>Q\<bar> \<le> 4 * Y"
    using rnd_abs_le [of "B * R"] BR unfolding Q_def by linarith
  have pq: "\<bar>P - Q\<bar> \<le> 4 * X + 4 * Y"
    using abs_triangle_ineq4 [of P Q] P4 Q4 by linarith
  have f: "\<bar>F - (P - Q)\<bar> \<le> (4 * X + 4 * Y) / 2 ^ 53"
    using rnd_error [of "P - Q"] pq unfolding F_def by simp
  define e1 where "e1 = F - (P - Q)"
  define e2 where "e2 = P - A * R"
  define e3 where "e3 = Q - B * R"
  define e4 where "e4 = (A - (M + S)) * R"
  define e5 where "e5 = (B - (C + S)) * R"
  define t where "t = X / 2 ^ 53"
  define s where "s = Y / 2 ^ 53"
  have id: "F - (M - C) * R = e1 + e2 - e3 + e4 - e5"
    by (simp add: e1_def e2_def e3_def e4_def e5_def algebra_simps)
  have "\<bar>e4\<bar> \<le> t" "\<bar>e5\<bar> \<le> s" "\<bar>e2\<bar> \<le> 2 * t" "\<bar>e3\<bar> \<le> 2 * s"
    "\<bar>e1\<bar> \<le> 4 * t + 4 * s"
    using a b p q f
    by (simp_all add: e1_def e2_def e3_def e4_def e5_def t_def s_def add_divide_distrib)
  then have "\<bar>e1 + e2 - e3 + e4 - e5\<bar> \<le> 7 * t + 7 * s"
    by linarith
  then have "\<bar>F - (M - C) * R\<bar> \<le> 7 * X / 2 ^ 53 + 7 * Y / 2 ^ 53"
    by (simp add: id t_def s_def)
  also have "\<dots> \<le> 8 * X / 2 ^ 53 + 8 * Y / 2 ^ 53"
    using X Y by simp
  also have "\<dots> = (\<bar>M + S\<bar> + \<bar>C + S\<bar>) * R / 2 ^ 50"
    by (simp add: X_def Y_def algebra_simps)
  finally show ?thesis
    by (simp add: F_def P_def Q_def A_def B_def)
qed



section \<open>Worked examples\<close>

text \<open>
  C1, as the claim states it, fails: at monthlyVolume 10000, creditCardPercentage 50,
  competitorRate 3 and both fixed costs 100 the surcharge formula returns the Numbers
  145.64999999999998, 245.64999999999998, 154.35000000000002 and
  1852.2000000000003, none of which is the Number 145.65, 245.65, 154.35 or 1852.2
  of the claim.
\<close>

theorem formula_worked_example_counterexample:
  "calculateROI_core \<lparr>monthlyVolume = dbl 10000, creditCardPercentage = dbl 50,
       competitorRate = dbl 3, competitorSaas = dbl 100, diCost = dbl 100\<rparr> =
     Inr \<lparr>data_competitorSaas = dbl 100, data_competitorProcessing = dbl 300,
          data_competitorTotal = dbl 400, data_diSaas = dbl 100,
          data_diProcessing = dbl 145.64999999999998, data_diTotal = dbl 245.64999999999998,
          data_monthlySavings = dbl 154.35000000000002,
          data_annualSavings = dbl 1852.2000000000003\<rparr>
   \<and> dbl 145.64999999999998 < dbl 145.65
   \<and> dbl 245.64999999999998 < dbl 245.65
   \<and> dbl 154.35 < dbl 154.35000000000002
   \<and> dbl 1852.2 < dbl 1852.2000000000003"
proof -
  have "dbl 145.64999999999998 < dbl 145.65"
    by (simp only: less_double_def dbl_rep lit_145_64999999999998 lit_145_65)
  moreover have "dbl 245.64999999999998 < dbl 245.65"
    by (simp only: less_double_def dbl_rep lit_245_64999999999998 lit_245_65)
  moreover have "dbl 154.35 < dbl 154.35000000000002"
    by (simp only: less_double_def dbl_rep lit_154_35000000000002 lit_154_35)
  moreover have "dbl 1852.2 < dbl 1852.2000000000003"
    by (simp only: less_double_def dbl_rep lit_1852_2000000000003 lit_1852_2)
  ultimately show ?thesis
    using ex50_core by (simp only: simp_thms)
qed

text \<open>
  C1, amended. At that input the surcharge formula gives a credit card volume of 5000, a
  surcharge of 150, and 300 and 400 for the competitor, exactly; the own processing cost,
  the own total, the monthly and the annual savings are the Numbers 145.64999999999998,
  245.64999999999998, 154.35000000000002 and 1852.2000000000003, each less than
  one part in a million million away from the 145.65, 245.65, 154.35 and 1852.2 of the
  exact arithmetic.
\<close>

theorem formula_worked_example:
  "creditCardVolume \<lparr>monthlyVolume = dbl 10000, creditCardPercentage = dbl 50,
       competitorRate = dbl 3, competitorSaas = dbl 100, diCost = dbl 100\<rparr> = dbl 5000
   \<and> surchargeCollected \<lparr>monthlyVolume = dbl 10000, creditCardPercentage = dbl 50,
       competitorRate = dbl 3, competitorSaas = dbl 100, diCost = dbl 100\<rparr> = dbl 150
   \<and> calculateROI_core \<lparr>monthlyVolume = dbl 10000, creditCardPercentage = dbl 50,
       competitorRate = dbl 3, competitorSaas = dbl 100, diCost = dbl 100\<rparr> =
     Inr \<lparr>data_competitorSaas = dbl 100, data_competitorProcessing = dbl 300,
          data_competitorTotal = dbl 400, data_diSaas = dbl 100,
          data_diProcessing = dbl 145.64999999999998, data_diTotal = dbl 245.64999999999998,
          data_monthlySavings = dbl 154.35000000000002,
          data_annualSavings = dbl 1852.2000000000003\<rparr>
   \<and> \<bar>rat_of (dbl 145.64999999999998) - 145.65\<bar> < 1 / 10 ^ 12
   \<and> \<bar>rat_of (dbl 245.64999999999998) - 245.65\<bar> < 1 / 10 ^ 12
   \<and> \<bar>rat_of (dbl 154.35000000000002) - 154.35\<bar> < 1 / 10 ^ 12
   \<and> \<bar>rat_of (dbl 1852.2000000000003) - 1852.2\<bar> < 1 / 10 ^ 12"
proof -
  have "\<bar>rat_of (dbl 145.64999999999998) - 145.65\<bar> < 1 / 10 ^ 12"
    by (simp only: dbl_rep lit_145_64999999999998) simp
  moreover have "\<bar>rat_of (dbl 245.64999999999998) - 245.65\<bar> < 1 / 10 ^ 12"
    by (simp only: dbl_rep lit_245_64999999999998) simp
  moreover have "\<bar>rat_of (dbl 154.35000000000002) - 154.35\<bar> < 1 / 10 ^ 12"
    by (simp only: dbl_rep lit_154_35000000000002) simp
  moreover have "\<bar>rat_of (dbl 1852.2000000000003) - 1852.2\<bar> < 1 / 10 ^ 12"
    by (simp only: dbl_rep lit_1852_2000000000003) simp
  ultimately show ?thesis
    using ex50_creditCardVolume ex50_surchargeCollected ex50_core by (simp only: simp_thms)
qed

text \<open>
  C2. With monthlyVolume 10000, competitorRate 3 and both fixed costs 100, whatever the
  creditCardPercentage, the flat rate gives a processing cost of 139.00 and a total of
  239.00 for the evaluated model, and savings of 161.00 a month and 1932.00 a year.
\<close>

theorem flat_worked_example:
  "calculateROI_core_flat \<lparr>monthlyVolume = dbl 10000, creditCardPercentage = c,
       competitorRate = dbl 3, competitorSaas = dbl 100, diCost = dbl 100\<rparr> =
     Inr \<lparr>data_competitorSaas = dbl 100,
          data_competitorProcessing = dbl 300,
          data_competitorTotal = dbl 400,
          data_diSaas = dbl 100,
          data_diProcessing = dbl 139.00,
          data_diTotal = dbl 239.00,
          data_monthlySavings = dbl 161.00,
          data_annualSavings = dbl 1932.00\<rparr>"
proof -
  have "dbl 139.00 = dbl 139" "dbl 239.00 = dbl 239" "dbl 161.00 = dbl 161"
    "dbl 1932.00 = dbl 1932"
    by (simp_all add: double_eq_iff dbl_rep)
  then show ?thesis
    using flat50_core_flat [of c] by (simp only:)
qed

section \<open>The formulas\<close>

text \<open>
  C3. For every input that passes the validation, both files compute the competitor's
  processing cost as monthlyVolume times competitorRate / 100, the competitor's total as
  the competitor's fixed cost plus that, and the own total as the own fixed cost plus the
  own processing cost. With the surcharge formula the own processing cost is
  ((monthlyVolume + surchargeCollected) * 0.02913) -
  ((creditCardVolume + surchargeCollected) * 0.02913), where creditCardVolume is
  monthlyVolume times creditCardPercentage / 100 and surchargeCollected is
  creditCardVolume times 0.03.
\<close>

theorem both_files_formulas:
  assumes "dbl 0 < monthlyVolume i"
  shows "\<exists>d f. calculateROI_core i = Inr d \<and> calculateROI_core_flat i = Inr f
    \<and> data_competitorProcessing d = fmul (monthlyVolume i) (fdiv (competitorRate i) (dbl 100))
    \<and> data_competitorTotal d = fadd (competitorSaas i) (data_competitorProcessing d)
    \<and> data_diTotal d = fadd (diCost i) (data_diProcessing d)
    \<and> data_competitorProcessing f = fmul (monthlyVolume i) (fdiv (competitorRate i) (dbl 100))
    \<and> data_competitorTotal f = fadd (competitorSaas i) (data_competitorProcessing f)
    \<and> data_diTotal f = fadd (diCost i) (data_diProcessing f)
    \<and> creditCardVolume i = fmul (monthlyVolume i) (fdiv (creditCardPercentage i) (dbl 100))
    \<and> surchargeCollected i = fmul (creditCardVolume i) (dbl 0.03)
    \<and> data_diProcessing d =
        fsub (fmul (fadd (monthlyVolume i) (surchargeCollected i)) (dbl 0.02913))
             (fmul (fadd (creditCardVolume i) (surchargeCollected i)) (dbl 0.02913))"
  using assms
  by (simp add: calculateROI_core_Inr calculateROI_core_flat_Inr shared_defs formula_defs
      flat_defs)

text \<open>C3 at the input of the worked examples.\<close>

theorem both_files_formulas_witness:
  "dbl 0 < dbl 10000 \<and>
   (\<exists>d f. calculateROI_core \<lparr>monthlyVolume = dbl 10000, creditCardPercentage = dbl 50,
       competitorRate = dbl 3, competitorSaas = dbl 100, diCost = dbl 100\<rparr> = Inr d
     \<and> calculateROI_core_flat \<lparr>monthlyVolume = dbl 10000, creditCardPercentage = dbl 50,
       competitorRate = dbl 3, competitorSaas = dbl 100, diCost = dbl 100\<rparr> = Inr f
     \<and> data_competitorProcessing d = dbl 300 \<and> data_competitorTotal d = dbl 400
     \<and> data_diTotal d = fadd (dbl 100) (data_diProcessing d)
     \<and> data_competitorProcessing f = dbl 300 \<and> data_competitorTotal f = dbl 400
     \<and> data_diTotal f = fadd (dbl 100) (data_diProcessing f)
     \<and> data_diProcessing d =
         fsub (fmul (fadd (dbl 10000) (dbl 150)) (dbl 0.02913))
              (fmul (fadd (dbl 5000) (dbl 150)) (dbl 0.02913)))"
proof -
  let ?i = "\<lparr>monthlyVolume = dbl 10000, creditCardPercentage = dbl 50,
       competitorRate = dbl 3, competitorSaas = dbl 100, diCost = dbl 100\<rparr>"
  have v: "dbl 0 < monthlyVolume ?i"
    by (simp add: dbl_pos)
  have w: "dbl 0 < dbl 10000"
    by (simp add: dbl_pos)
  obtain d f where r: "calculateROI_core ?i = Inr d" "calculateROI_core_flat ?i = Inr f"
    and c: "data_competitorProcessing d = fmul (monthlyVolume ?i) (fdiv (competitorRate ?i) (dbl 100))"
      "data_competitorTotal d = fadd (competitorSaas ?i) (data_competitorProcessing d)"
      "data_diTotal d = fadd (diCost ?i) (data_diProcessing d)"
      "data_competitorProcessing f = fmul (monthlyVolume ?i) (fdiv (competitorRate ?i) (dbl 100))"
      "data_competitorTotal f = fadd (competitorSaas ?i) (data_competitorProcessing f)"
      "data_diTotal f = fadd (diCost ?i) (data_diProcessing f)"
      "data_diProcessing d =
         fsub (fmul (fadd (monthlyVolume ?i) (surchargeCollected ?i)) (dbl 0.02913))
              (fmul (fadd (creditCardVolume ?i) (surchargeCollected ?i)) (dbl 0.02913))"
    using both_files_formulas [OF v] by blast
  have p: "fmul (monthlyVolume ?i) (fdiv (competitorRate ?i) (dbl 100)) = dbl 300"
    using ex50_competitorProcessingCost
    by (simp only: competitorProcessingCost_def competitorRateDecimal_def)
  have t: "fadd (competitorSaas ?i) (dbl 300) = dbl 400"
    using ex50_competitorTotalCost
    by (simp only: competitorTotalCost_def ex50_competitorProcessingCost)
  have "data_competitorProcessing d = dbl 300" "data_competitorProcessing f = dbl 300"
    using c(1,4) p by simp_all
  moreover from this have "data_competitorTotal d = dbl 400" "data_competitorTotal f = dbl 400"
    using c(2,5) t by simp_all
  moreover have "data_diTotal d = fadd (dbl 100) (data_diProcessing d)"
    "data_diTotal f = fadd (dbl 100) (data_diProcessing f)"
    using c(3,6) by simp_all
  moreover have "data_diProcessing d =
      fsub (fmul (fadd (dbl 10000) (dbl 150)) (dbl 0.02913))
           (fmul (fadd (dbl 5000) (dbl 150)) (dbl 0.02913))"
    using c(7) by (simp only: ex50_creditCardVolume ex50_surchargeCollected inputs.select_convs)
  ultimately show ?thesis
    using r w by blast
qed

section \<open>The validation\<close>

text \<open>
  C4. When monthlyVolume is zero or negative, the calculation ends with the error
  InvalidVolume and no object of results, in both files; \<open>calculateROI\<close> returns after
  the alert, so the page differs from the one before by that alert only: no result
  element is written and the results section is not shown.
\<close>

theorem invalid_volume_rejected:
  assumes "monthlyVolume i \<le> dbl 0"
  shows "calculateROI_core i = Inl InvalidVolume
    \<and> calculateROI_core_flat i = Inl InvalidVolume
    \<and> (readInputs p = i \<longrightarrow>
         calculateROI p =
           p\<lparr>alerts := alerts p @ [''Please enter a valid monthly processing volume'']\<rparr>)
    \<and> (readInputs_flat p = i \<longrightarrow>
         calculateROI_flat p =
           p\<lparr>alerts := alerts p @ [''Please enter a valid monthly processing volume'']\<rparr>)"
  using assms
  by (auto simp add: calculateROI_core_def calculateROI_core_flat_def calculateROI_def
      calculateROI_flat_def alert_def)

text \<open>C4 on the example page, once the volume has been set to 0.\<close>

theorem invalid_volume_rejected_witness:
  "monthlyVolume (readInputs (step (Edit MonthlyVolume (Num (dbl 0))) example_page)) = dbl 0
   \<and> readInputs_flat (step (Edit MonthlyVolume (Num (dbl 0))) example_page) =
       readInputs (step (Edit MonthlyVolume (Num (dbl 0))) example_page)
   \<and> calculateROI_core (readInputs (step (Edit MonthlyVolume (Num (dbl 0))) example_page)) =
       Inl InvalidVolume
   \<and> calculateROI_core_flat
       (readInputs (step (Edit MonthlyVolume (Num (dbl 0))) example_page)) =
       Inl InvalidVolume
   \<and> calculateROI (step (Edit MonthlyVolume (Num (dbl 0))) example_page) =
       (step (Edit MonthlyVolume (Num (dbl 0))) example_page)
         \<lparr>alerts := [''Please enter a valid monthly processing volume'']\<rparr>
   \<and> calculateROI_flat (step (Edit MonthlyVolume (Num (dbl 0))) example_page) =
       (step (Edit MonthlyVolume (Num (dbl 0))) example_page)
         \<lparr>alerts := [''Please enter a valid monthly processing volume'']\<rparr>"
proof -
  let ?p = "step (Edit MonthlyVolume (Num (dbl 0))) example_page"
  have v: "monthlyVolume (readInputs ?p) = dbl 0"
    by (simp add: readInputs_def example_page_def strip_commas_def)
  have e: "readInputs_flat ?p = readInputs ?p"
    by (simp add: readInputs_def readInputs_flat_def example_page_def strip_commas_def
        fabs_100)
  have a: "alerts ?p = []"
    by (simp add: example_page_def)
  have l: "monthlyVolume (readInputs ?p) \<le> dbl 0"
    using v by simp
  show ?thesis
    using invalid_volume_rejected [OF l, of ?p] v e a by simp
qed

section \<open>The surcharge formula\<close>

text \<open>
  C5, as the claim states it, fails: taxing the surcharge leaves no residual. With all
  of a volume of 10000 on credit cards a surcharge of 300 is collected and the own
  processing cost is exactly 0, not 0 plus a fee on the surcharge. With half of it on
  credit cards a surcharge of 150 is collected and the own processing cost,
  145.64999999999998, lies below the rate on the debit volume, 145.65, where a fee on
  the surcharge would put it above.
\<close>

theorem surcharge_nets_credit_fees_counterexample:
  "surchargeCollected \<lparr>monthlyVolume = dbl 10000, creditCardPercentage = dbl 100,
       competitorRate = dbl 3, competitorSaas = dbl 100, diCost = dbl 100\<rparr> = dbl 300
   \<and> dbl 0 < dbl 300
   \<and> calculateROI_core \<lparr>monthlyVolume = dbl 10000, creditCardPercentage = dbl 100,
       competitorRate = dbl 3, competitorSaas = dbl 100, diCost = dbl 100\<rparr> =
     Inr \<lparr>data_competitorSaas = dbl 100, data_competitorProcessing = dbl 300,
          data_competitorTotal = dbl 400, data_diSaas = dbl 100,
          data_diProcessing = dbl 0, data_diTotal = dbl 100,
          data_monthlySavings = dbl 300,
          data_annualSavings = dbl 3600\<rparr>
   \<and> surchargeCollected \<lparr>monthlyVolume = dbl 10000, creditCardPercentage = dbl 50,
       competitorRate = dbl 3, competitorSaas = dbl 100, diCost = dbl 100\<rparr> = dbl 150
   \<and> diProcessingCost \<lparr>monthlyVolume = dbl 10000, creditCardPercentage = dbl 50,
       competitorRate = dbl 3, competitorSaas = dbl 100, diCost = dbl 100\<rparr> = dbl 145.64999999999998
   \<and> fmul (debitVolume \<lparr>monthlyVolume = dbl 10000, creditCardPercentage = dbl 50,
       competitorRate = dbl 3, competitorSaas = dbl 100, diCost = dbl 100\<rparr>) baseProcessingRate = dbl 145.65
   \<and> dbl 145.64999999999998 < dbl 145.65"
proof -
  have "dbl 0 < dbl 300"
    by (simp add: dbl_pos)
  moreover have "fmul (debitVolume \<lparr>monthlyVolume = dbl 10000, creditCardPercentage = dbl 50,
       competitorRate = dbl 3, competitorSaas = dbl 100, diCost = dbl 100\<rparr>) baseProcessingRate = dbl 145.65"
    by (simp only: ex50_debitVolume baseProcessingRate_def ex50_debit_base)
  moreover have "dbl 145.64999999999998 < dbl 145.65"
    by (simp only: less_double_def dbl_rep lit_145_64999999999998 lit_145_65)
  ultimately show ?thesis
    using ex100_surchargeCollected ex100_core ex50_surchargeCollected ex50_diProcessingCost
    by (simp only: simp_thms)
qed

text \<open>
  C5, amended. With the surcharge formula the surcharge collected, creditCardVolume
  times 0.03, enters both terms and cancels: the own processing cost is the rate on
  monthlyVolume - creditCardVolume, the debit volume, up to the rounding of the
  arithmetic, from which it differs by at most \<open>2\<^sup>-\<^sup>5\<^sup>0\<close> of the rate on the two
  terms, and it holds no fee on the surcharge. When creditCardPercentage is 100, the credit
  card volume is the whole volume and the own processing cost is exactly 0.
\<close>

theorem surcharge_nets_credit_fees:
  assumes "dbl 0 < monthlyVolume i"
  shows "\<exists>d. calculateROI_core i = Inr d
    \<and> surchargeCollected i = fmul (creditCardVolume i) (dbl 0.03)
    \<and> \<bar>rat_of (data_diProcessing d)
         - (rat_of (monthlyVolume i) - rat_of (creditCardVolume i)) * rat_of (dbl 0.02913)\<bar>
       \<le> (\<bar>rat_of (monthlyVolume i) + rat_of (surchargeCollected i)\<bar>
           + \<bar>rat_of (creditCardVolume i) + rat_of (surchargeCollected i)\<bar>)
          * rat_of (dbl 0.02913) / 2 ^ 50
    \<and> (creditCardPercentage i = dbl 100 \<longrightarrow>
         creditCardVolume i = monthlyVolume i \<and> data_diProcessing d = dbl 0)"
proof -
  have e: "\<bar>rat_of (feesWithSurcharging i)
         - (rat_of (monthlyVolume i) - rat_of (creditCardVolume i)) * rat_of (dbl 0.02913)\<bar>
       \<le> (\<bar>rat_of (monthlyVolume i) + rat_of (surchargeCollected i)\<bar>
           + \<bar>rat_of (creditCardVolume i) + rat_of (surchargeCollected i)\<bar>)
          * rat_of (dbl 0.02913) / 2 ^ 50"
    using fees_error [of "rat_of (dbl 0.02913)" "rat_of (monthlyVolume i)"
        "rat_of (surchargeCollected i)" "rat_of (creditCardVolume i)"]
      baseProcessingRate_nonneg
    by (simp add: feesWithSurcharging_def baseProcessingRate_def double_rep)
  have z: "creditCardVolume i = monthlyVolume i \<and> feesWithSurcharging i = dbl 0"
    if "creditCardPercentage i = dbl 100"
  proof -
    have c: "creditCardVolume i = monthlyVolume i"
      using that by (simp add: creditCardVolume_def fdiv_self_100 fmul_1)
    then show ?thesis
      by (simp add: feesWithSurcharging_def fsub_self)
  qed
  show ?thesis
    using assms e z
    by (simp add: calculateROI_core_Inr diProcessingCost_def surchargeCollected_def)
qed

text \<open>C5, amended, at a volume of 10000 paid by credit card only.\<close>

theorem surcharge_nets_credit_fees_witness:
  "dbl 0 < dbl 10000 \<and>
   (\<exists>d. calculateROI_core \<lparr>monthlyVolume = dbl 10000, creditCardPercentage = dbl 100,
       competitorRate = dbl 3, competitorSaas = dbl 100, diCost = dbl 100\<rparr> = Inr d
      \<and> creditCardVolume \<lparr>monthlyVolume = dbl 10000, creditCardPercentage = dbl 100,
       competitorRate = dbl 3, competitorSaas = dbl 100, diCost = dbl 100\<rparr> = dbl 10000
      \<and> data_diProcessing d = dbl 0)"
proof -
  have v: "dbl 0 < monthlyVolume \<lparr>monthlyVolume = dbl 10000, creditCardPercentage = dbl 100,
       competitorRate = dbl 3, competitorSaas = dbl 100, diCost = dbl 100\<rparr>"
    by (simp add: dbl_pos)
  show ?thesis
    using surcharge_nets_credit_fees [OF v] v by auto
qed

text \<open>
  C6, as the claim states it, fails: the division of the effective rate has no guard,
  and a positive volume does not keep its divisor from zero. At a volume of 3 and a
  credit card percentage of -3333.3333333333335 the input passes the validation, the
  credit card volume is -100, the surcharge -3, the divisor
  monthlyVolume + surchargeCollected is 0 and the quotient is \<open>Infinity\<close>.
\<close>

theorem effective_rate_divisor_counterexample:
  "dbl 0 < monthlyVolume \<lparr>monthlyVolume = dbl 3, creditCardPercentage = dbl (- 3333.3333333333335),
       competitorRate = dbl 3, competitorSaas = dbl 100, diCost = dbl 100\<rparr>
   \<and> adjustedVolume \<lparr>monthlyVolume = dbl 3, creditCardPercentage = dbl (- 3333.3333333333335),
       competitorRate = dbl 3, competitorSaas = dbl 100, diCost = dbl 100\<rparr> = dbl 0
   \<and> effectiveRate \<lparr>monthlyVolume = dbl 3, creditCardPercentage = dbl (- 3333.3333333333335),
       competitorRate = dbl 3, competitorSaas = dbl 100, diCost = dbl 100\<rparr> = PosInfinity
   \<and> calculateROI_core \<lparr>monthlyVolume = dbl 3, creditCardPercentage = dbl (- 3333.3333333333335),
       competitorRate = dbl 3, competitorSaas = dbl 100, diCost = dbl 100\<rparr> =
     Inr \<lparr>data_competitorSaas = dbl 100, data_competitorProcessing = dbl 0.09,
          data_competitorTotal = dbl 100.09, data_diSaas = dbl 100,
          data_diProcessing = dbl 3.00039, data_diTotal = dbl 103.00039,
          data_monthlySavings = dbl (- 2.9103899999999925),
          data_annualSavings = dbl (- 34.92467999999991)\<rparr>"
proof -
  have v: "dbl 0 < monthlyVolume \<lparr>monthlyVolume = dbl 3, creditCardPercentage = dbl (- 3333.3333333333335),
       competitorRate = dbl 3, competitorSaas = dbl 100, diCost = dbl 100\<rparr>"
    by (simp add: dbl_pos)
  have f: "dbl 0 < dbl 3.00039"
    by (simp add: dbl_pos)
  have "effectiveRate \<lparr>monthlyVolume = dbl 3, creditCardPercentage = dbl (- 3333.3333333333335),
       competitorRate = dbl 3, competitorSaas = dbl 100, diCost = dbl 100\<rparr> = PosInfinity"
    using f by (simp only: effectiveRate_def js_div_def zero_feesWithSurcharging
        zero_adjustedVolume simp_thms if_True)
  then show ?thesis
    using v zero_adjustedVolume zero_core by (simp only: simp_thms)
qed

text \<open>
  C6, amended. The divisions by 100, of creditCardPercentage, of competitorRate and of
  the flat rate, never have a zero divisor. The division of the effective rate, by
  monthlyVolume + surchargeCollected, is not guarded; for a positive monthlyVolume its
  divisor is positive, and the quotient the finite Number
  feesWithSurcharging / adjustedVolume, whenever creditCardPercentage is not negative.
\<close>

theorem effective_rate_divisor:
  "js_div (creditCardPercentage i) (dbl 100) = Finite (fdiv (creditCardPercentage i) (dbl 100))
   \<and> js_div (competitorRate i) (dbl 100) = Finite (competitorRateDecimal i)
   \<and> js_div DI_SURCHARGE_RATE (dbl 100) = Finite DI_SURCHARGE_RATE_DECIMAL
   \<and> (dbl 0 < monthlyVolume i \<and> dbl 0 \<le> creditCardPercentage i \<longrightarrow>
        dbl 0 < adjustedVolume i
        \<and> effectiveRate i = Finite (fdiv (feesWithSurcharging i) (adjustedVolume i)))"
proof -
  have p: "dbl 0 < adjustedVolume i"
    if "dbl 0 < monthlyVolume i" and "dbl 0 \<le> creditCardPercentage i"
  proof -
    have "dbl 0 \<le> creditCardVolume i"
      using that by (simp add: creditCardVolume_nonneg)
    then have "0 \<le> rat_of (creditCardVolume i) * rnd 0.03"
      by (simp add: double_rep rnd_0 rnd_nonneg)
    then have "0 \<le> rnd (rat_of (creditCardVolume i) * rnd 0.03)"
      by (rule rnd_nonneg)
    then have "0 < rat_of (monthlyVolume i) + rnd (rat_of (creditCardVolume i) * rnd 0.03)"
      using that(1) by (simp add: double_rep rnd_0 add_pos_nonneg)
    then have "0 < rnd (rat_of (monthlyVolume i) + rnd (rat_of (creditCardVolume i) * rnd 0.03))"
      by (rule rnd_pos)
    then show ?thesis
      by (simp add: adjustedVolume_def surchargeCollected_def double_rep rnd_0)
  qed
  show ?thesis
    using p
    by (auto simp add: js_div_def dbl_100_not_0 competitorRateDecimal_def
        DI_SURCHARGE_RATE_DECIMAL_def effectiveRate_def)
qed

text \<open>C6, amended, at the input of the worked examples.\<close>

theorem effective_rate_divisor_witness:
  "dbl 0 < dbl 10000 \<and> dbl 0 \<le> dbl 50
   \<and> js_div (dbl 50) (dbl 100) = Finite (dbl 0.5)
   \<and> adjustedVolume \<lparr>monthlyVolume = dbl 10000, creditCardPercentage = dbl 50,
       competitorRate = dbl 3, competitorSaas = dbl 100, diCost = dbl 100\<rparr> = dbl 10150
   \<and> dbl 0 < dbl 10150
   \<and> effectiveRate \<lparr>monthlyVolume = dbl 10000, creditCardPercentage = dbl 50,
       competitorRate = dbl 3, competitorSaas = dbl 100, diCost = dbl 100\<rparr> = Finite (dbl 0.014349753694581278)"
proof -
  let ?i = "\<lparr>monthlyVolume = dbl 10000, creditCardPercentage = dbl 50,
       competitorRate = dbl 3, competitorSaas = dbl 100, diCost = dbl 100\<rparr>"
  have h: "dbl 0 < monthlyVolume ?i \<and> dbl 0 \<le> creditCardPercentage ?i"
    by (simp add: dbl_pos dbl_nonneg)
  have q: "fdiv (feesWithSurcharging ?i) (adjustedVolume ?i) = dbl 0.014349753694581278"
    by (simp only: ex50_feesWithSurcharging ex50_adjustedVolume ex50_quotient)
  have d: "fdiv (creditCardPercentage ?i) (dbl 100) = dbl 0.5"
    using ex50_half by (simp only: inputs.select_convs)
  have "js_div (dbl 50) (dbl 100) = Finite (dbl 0.5)"
    using effective_rate_divisor [of ?i] d by (simp only: inputs.select_convs)
  moreover have "effectiveRate ?i = Finite (dbl 0.014349753694581278)"
    using effective_rate_divisor [of ?i] h q by (simp only: simp_thms)
  moreover have "dbl 0 < dbl 10000" "dbl 0 \<le> dbl 50" "dbl 0 < dbl 10150"
    by (simp_all add: dbl_pos dbl_nonneg)
  ultimately show ?thesis
    using ex50_adjustedVolume by (simp only: simp_thms)
qed

section \<open>Relations between the results\<close>

text \<open>
  C7. In every result of either file the annual savings are the monthly savings times
  12.
\<close>

theorem annual_is_twelve_months:
  "(calculateROI_core i = Inr d \<longrightarrow>
      data_annualSavings d = fmul (data_monthlySavings d) (dbl 12))
   \<and> (calculateROI_core_flat i = Inr f \<longrightarrow>
        data_annualSavings f = fmul (data_monthlySavings f) (dbl 12))"
  by (auto simp add: calculateROI_core_def calculateROI_core_flat_def annualSavings_def
      annualSavings_flat_def split: if_splits)

text \<open>C7 at the results of the worked examples.\<close>

theorem annual_is_twelve_months_witness:
  "calculateROI_core \<lparr>monthlyVolume = dbl 10000, creditCardPercentage = dbl 50,
       competitorRate = dbl 3, competitorSaas = dbl 100, diCost = dbl 100\<rparr> =
     Inr \<lparr>data_competitorSaas = dbl 100, data_competitorProcessing = dbl 300,
          data_competitorTotal = dbl 400, data_diSaas = dbl 100,
          data_diProcessing = dbl 145.64999999999998, data_diTotal = dbl 245.64999999999998,
          data_monthlySavings = dbl 154.35000000000002,
          data_annualSavings = dbl 1852.2000000000003\<rparr>
   \<and> calculateROI_core_flat \<lparr>monthlyVolume = dbl 10000, creditCardPercentage = dbl 50,
       competitorRate = dbl 3, competitorSaas = dbl 100, diCost = dbl 100\<rparr> =
     Inr \<lparr>data_competitorSaas = dbl 100, data_competitorProcessing = dbl 300,
          data_competitorTotal = dbl 400, data_diSaas = dbl 100,
          data_diProcessing = dbl 139, data_diTotal = dbl 239,
          data_monthlySavings = dbl 161, data_annualSavings = dbl 1932\<rparr>
   \<and> dbl 1852.2000000000003 = fmul (dbl 154.35000000000002) (dbl 12)
   \<and> dbl 1932 = fmul (dbl 161) (dbl 12)"
proof -
  let ?i = "\<lparr>monthlyVolume = dbl 10000, creditCardPercentage = dbl 50,
       competitorRate = dbl 3, competitorSaas = dbl 100, diCost = dbl 100\<rparr>"
  let ?d = "\<lparr>data_competitorSaas = dbl 100, data_competitorProcessing = dbl 300,
          data_competitorTotal = dbl 400, data_diSaas = dbl 100,
          data_diProcessing = dbl 145.64999999999998, data_diTotal = dbl 245.64999999999998,
          data_monthlySavings = dbl 154.35000000000002,
          data_annualSavings = dbl 1852.2000000000003\<rparr>"
  let ?f = "\<lparr>data_competitorSaas = dbl 100, data_competitorProcessing = dbl 300,
          data_competitorTotal = dbl 400, data_diSaas = dbl 100,
          data_diProcessing = dbl 139, data_diTotal = dbl 239,
          data_monthlySavings = dbl 161, data_annualSavings = dbl 1932\<rparr>"
  have d: "calculateROI_core ?i = Inr ?d"
    by (rule ex50_core)
  have f: "calculateROI_core_flat ?i = Inr ?f"
    by (rule flat50_core_flat)
  have "data_annualSavings ?d = fmul (data_monthlySavings ?d) (dbl 12)"
    "data_annualSavings ?f = fmul (data_monthlySavings ?f) (dbl 12)"
    using annual_is_twelve_months [of ?i ?d ?f] d f by blast+
  then have "dbl 1852.2000000000003 = fmul (dbl 154.35000000000002) (dbl 12)"
    "dbl 1932 = fmul (dbl 161) (dbl 12)"
    by (simp_all only: data.select_convs)
  then show ?thesis
    using d f by (simp only: simp_thms)
qed

text \<open>
  C8, as the claim states it, fails for the surcharge formula: with a volume of 10000, a
  credit card percentage of 150, a competitor's rate of 3 and both fixed costs 100, no
  field is negative and the own total is 45.64999999999998 below zero.
\<close>

theorem totals_nonnegative_counterexample:
  "dbl 0 < dbl 10000 \<and> dbl 0 \<le> dbl 150 \<and> dbl 0 \<le> dbl 3 \<and> dbl 0 \<le> dbl 100
   \<and> calculateROI_core \<lparr>monthlyVolume = dbl 10000, creditCardPercentage = dbl 150,
       competitorRate = dbl 3, competitorSaas = dbl 100, diCost = dbl 100\<rparr> =
     Inr \<lparr>data_competitorSaas = dbl 100, data_competitorProcessing = dbl 300,
          data_competitorTotal = dbl 400, data_diSaas = dbl 100,
          data_diProcessing = dbl (- 145.64999999999998), data_diTotal = dbl (- 45.64999999999998),
          data_monthlySavings = dbl 445.65,
          data_annualSavings = dbl 5347.799999999999\<rparr>
   \<and> dbl (- 45.64999999999998) < dbl 0"
proof -
  have "dbl (- 45.64999999999998) < dbl 0"
    by (simp only: less_double_def dbl_rep lit_45_64999999999998 rnd_0 rnd_minus)
  moreover have "dbl 0 < dbl 10000" "dbl 0 \<le> dbl 150" "dbl 0 \<le> dbl 3" "dbl 0 \<le> dbl 100"
    by (simp_all add: dbl_pos dbl_nonneg)
  ultimately show ?thesis
    using ex150_core by (simp only: simp_thms)
qed

text \<open>
  C8, amended. For every input with a positive monthlyVolume and no negative field, the
  competitor's total is not negative in both files, the own total of the flat rate is
  not negative, and the own total of the surcharge formula is not negative when
  creditCardPercentage is at most 100.
\<close>

theorem totals_nonnegative:
  assumes "dbl 0 < monthlyVolume i" and "dbl 0 \<le> creditCardPercentage i"
    and "dbl 0 \<le> competitorRate i" and "dbl 0 \<le> competitorSaas i" and "dbl 0 \<le> diCost i"
  shows "\<exists>d f. calculateROI_core i = Inr d \<and> calculateROI_core_flat i = Inr f
    \<and> dbl 0 \<le> data_competitorTotal d \<and> dbl 0 \<le> data_competitorTotal f
    \<and> dbl 0 \<le> data_diTotal f
    \<and> (creditCardPercentage i \<le> dbl 100 \<longrightarrow> dbl 0 \<le> data_diTotal d)"
proof -
  have m: "dbl 0 \<le> monthlyVolume i"
    using assms(1) by simp
  have c: "dbl 0 \<le> competitorTotalCost i"
    using m assms(3,4) by (rule competitorTotalCost_nonneg)
  have f: "dbl 0 \<le> diTotalCost_flat i"
    using m assms(5) by (rule diTotalCost_flat_nonneg)
  have d: "dbl 0 \<le> diTotalCost i" if "creditCardPercentage i \<le> dbl 100"
  proof -
    have "dbl 0 \<le> feesWithSurcharging i"
      using m that by (rule feesWithSurcharging_nonneg)
    then have "0 \<le> rat_of (diCost i) + rat_of (feesWithSurcharging i)"
      using assms(5) by (simp add: double_rep rnd_0)
    then have "0 \<le> rnd (rat_of (diCost i) + rat_of (feesWithSurcharging i))"
      by (rule rnd_nonneg)
    then show ?thesis
      by (simp add: diTotalCost_def diProcessingCost_def double_rep rnd_0)
  qed
  show ?thesis
    using assms(1) c f d by (simp add: calculateROI_core_Inr calculateROI_core_flat_Inr)
qed

text \<open>C8, amended, at the input of the worked examples.\<close>

theorem totals_nonnegative_witness:
  "dbl 0 < dbl 10000 \<and> dbl 0 \<le> dbl 50 \<and> dbl 0 \<le> dbl 3 \<and> dbl 0 \<le> dbl 100
   \<and> dbl 50 \<le> dbl 100
   \<and> (\<exists>d f. calculateROI_core \<lparr>monthlyVolume = dbl 10000, creditCardPercentage = dbl 50,
       competitorRate = dbl 3, competitorSaas = dbl 100, diCost = dbl 100\<rparr> = Inr d
        \<and> calculateROI_core_flat \<lparr>monthlyVolume = dbl 10000, creditCardPercentage = dbl 50,
       competitorRate = dbl 3, competitorSaas = dbl 100, diCost = dbl 100\<rparr> = Inr f
        \<and> dbl 0 \<le> data_competitorTotal d \<and> dbl 0 \<le> data_competitorTotal f
        \<and> dbl 0 \<le> data_diTotal f \<and> dbl 0 \<le> data_diTotal d)"
proof -
  let ?i = "\<lparr>monthlyVolume = dbl 10000, creditCardPercentage = dbl 50,
       competitorRate = dbl 3, competitorSaas = dbl 100, diCost = dbl 100\<rparr>"
  have h: "dbl 0 < dbl 10000" "dbl 0 \<le> dbl 50" "dbl 0 \<le> dbl 3" "dbl 0 \<le> dbl 100"
    by (simp_all add: dbl_pos dbl_nonneg)
  have l: "dbl 50 \<le> dbl 100"
    by (rule dbl_mono) simp
  show ?thesis
    using totals_nonnegative [of ?i] h l by auto
qed

text \<open>
  C9. With the flat rate, changing creditCardPercentage and nothing else changes
  neither the own processing cost, nor the own total, nor the monthly or the annual
  savings, nor anything else that the calculation returns.
\<close>

theorem flat_rate_ignores_credit_share:
  "diProcessingCost_flat (i\<lparr>creditCardPercentage := c\<rparr>) = diProcessingCost_flat i
   \<and> diTotalCost_flat (i\<lparr>creditCardPercentage := c\<rparr>) = diTotalCost_flat i
   \<and> monthlySavings_flat (i\<lparr>creditCardPercentage := c\<rparr>) = monthlySavings_flat i
   \<and> annualSavings_flat (i\<lparr>creditCardPercentage := c\<rparr>) = annualSavings_flat i
   \<and> calculateROI_core_flat (i\<lparr>creditCardPercentage := c\<rparr>) = calculateROI_core_flat i"
  by (simp add: calculateROI_core_flat_def flat_defs competitorTotalCost_def
      competitorProcessingCost_def competitorRateDecimal_def)

section \<open>The percentage fields\<close>




end
